theory Spec2Isabelle
  imports Complex_Main
begin

section \<open>Python floats\<close>

text \<open>
  The script works on pandas columns of dtype float64 and on Python floats. A float is
  modelled by its exact value: a finite double is the rational number it denotes, and
  the three special values are kept apart. A missing cell of a pandas float column is
  \<open>NaN\<close>. The sign of zero is not modelled.
\<close>

datatype pyfloat = Fin rat | PosInf | NegInf | NaN

text \<open>Python's \<open><\<close> and \<open>>\<close> on floats: every comparison with \<open>NaN\<close> is false.\<close>

fun float_lt :: "pyfloat \<Rightarrow> pyfloat \<Rightarrow> bool" where
  "float_lt NaN _ = False"
| "float_lt _ NaN = False"
| "float_lt (Fin a) (Fin b) = (a < b)"
| "float_lt (Fin _) PosInf = True"
| "float_lt (Fin _) NegInf = False"
| "float_lt NegInf NegInf = False"
| "float_lt NegInf _ = True"
| "float_lt PosInf _ = False"

definition float_gt :: "pyfloat \<Rightarrow> pyfloat \<Rightarrow> bool" where
  "float_gt a b = float_lt b a"

fun float_neg :: "pyfloat \<Rightarrow> pyfloat" where
  "float_neg (Fin a) = Fin (- a)"
| "float_neg PosInf = NegInf"
| "float_neg NegInf = PosInf"
| "float_neg NaN = NaN"

subsection \<open>Rounding a number to the nearest double\<close>

text \<open>
  Every arithmetic operation on doubles returns the exact result rounded to the nearest
  double, ties to the even significand. \<open>fl\<close> is that rounding: 53 significant bits,
  exponents from -1022 to 1023, gradual underflow below, overflow to infinity above.
\<close>

fun ilog2 :: "nat \<Rightarrow> nat" where
  "ilog2 n = (if n < 2 then 0 else Suc (ilog2 (n div 2)))"

declare ilog2.simps [simp del]

definition round_half_even :: "rat \<Rightarrow> int" where
  "round_half_even q =
     (let f = \<lfloor>q\<rfloor>; r = q - of_int f
      in if r < 1 / 2 then f else if 1 / 2 < r then f + 1
         else if even f then f else f + 1)"

text \<open>The binary exponent of a positive rational \<open>q\<close>: the \<open>e\<close> with \<open>2^e \<le> q < 2^(e+1)\<close>.\<close>

definition rat_exponent :: "rat \<Rightarrow> int" where
  "rat_exponent q =
     (let (a, b) = quotient_of q;
          d = int (ilog2 (nat a)) - int (ilog2 (nat b))
      in if 2 powi d \<le> q then d else d - 1)"

definition double_overflow :: rat where
  "double_overflow = 2 ^ 1024"

definition fl :: "rat \<Rightarrow> pyfloat" where
  "fl q =
     (if q = 0 then Fin 0
      else let a = \<bar>q\<bar>;
               e = max (rat_exponent a) (- 1022);
               ulp = 2 powi (e - 52);
               r = of_int (round_half_even (a / ulp)) * ulp
           in if double_overflow \<le> r then (if 0 < q then PosInf else NegInf)
              else Fin (if 0 < q then r else - r))"

fun float_add :: "pyfloat \<Rightarrow> pyfloat \<Rightarrow> pyfloat" where
  "float_add (Fin a) (Fin b) = fl (a + b)"
| "float_add NaN _ = NaN"
| "float_add _ NaN = NaN"
| "float_add PosInf NegInf = NaN"
| "float_add NegInf PosInf = NaN"
| "float_add PosInf _ = PosInf"
| "float_add NegInf _ = NegInf"
| "float_add (Fin _) b = b"

text \<open>Division and multiplication by a positive finite number.\<close>

fun float_div_pos :: "pyfloat \<Rightarrow> rat \<Rightarrow> pyfloat" where
  "float_div_pos (Fin a) d = fl (a / d)"
| "float_div_pos x d = x"

fun float_mul_pos :: "pyfloat \<Rightarrow> rat \<Rightarrow> pyfloat" where
  "float_mul_pos (Fin a) d = fl (a * d)"
| "float_mul_pos x d = x"

section \<open>Sentiment categories\<close>

text \<open>
  \<^verbatim>\<open>
  def get_sentiment_category(polarity):
      if polarity > 0.1:
          return 'Positive'
      elif polarity < -0.1:
          return 'Negative'
      else:
          return 'Neutral'
  \<close>
  The literal \<open>0.1\<close> is the double nearest to one tenth, and \<open>-0.1\<close> is its negation.
\<close>

definition lit_0_1 :: pyfloat where
  "lit_0_1 = fl (1 / 10)"

definition get_sentiment_category :: "pyfloat \<Rightarrow> string" where
  "get_sentiment_category polarity =
     (if float_gt polarity lit_0_1 then ''Positive''
      else if float_lt polarity (float_neg lit_0_1) then ''Negative''
      else ''Neutral'')"

section \<open>The survey table\<close>

text \<open>
  A pandas DataFrame is a record of its columns, each a list with one cell per row. The
  three secondary rating columns hold floats once a cell is missing (\<open>NaN\<close>); the overall
  rating and the year of study are integer columns, and the year column carries its
  dtype, which \<open>astype('category')\<close> changes while the values stay. A timestamp is a
  calendar date with an hour.
\<close>

datatype datetime = Datetime nat nat nat nat

datatype dtype = Int64 | Category

record dataframe =
  Timestamp :: "datetime list"
  OverallRating :: "int list"
  SpeakerRating :: "pyfloat list"
  WorkshopRating :: "pyfloat list"
  FoodRating :: "pyfloat list"
  WhatDidYouLike :: "string list"
  Improvements :: "string list"
  AttendedEvents :: "string list"
  YearOfStudy :: "int list"
  YearOfStudy_dtype :: dtype

definition n_rows :: "'a dataframe_scheme \<Rightarrow> nat" where
  "n_rows df = length (OverallRating df)"

text \<open>Every column of a DataFrame has one cell per row.\<close>

definition wellformed :: "'a dataframe_scheme \<Rightarrow> bool" where
  "wellformed df =
     (length (Timestamp df) = n_rows df \<and> length (SpeakerRating df) = n_rows df
      \<and> length (WorkshopRating df) = n_rows df \<and> length (FoodRating df) = n_rows df
      \<and> length (WhatDidYouLike df) = n_rows df \<and> length (Improvements df) = n_rows df
      \<and> length (AttendedEvents df) = n_rows df \<and> length (YearOfStudy df) = n_rows df)"

definition isnull :: "pyfloat \<Rightarrow> bool" where
  "isnull c = (c = NaN)"

text \<open>
  The base schema of the data model: ratings are integers from 1 to 5, the three
  secondary ones possibly missing, and the year of study is an integer from 1 to 4.
\<close>

fun is_rating :: "pyfloat \<Rightarrow> bool" where
  "is_rating (Fin q) = (q = 1 \<or> q = 2 \<or> q = 3 \<or> q = 4 \<or> q = 5)"
| "is_rating _ = False"

definition rating_or_missing :: "pyfloat \<Rightarrow> bool" where
  "rating_or_missing c = (isnull c \<or> is_rating c)"

definition base_schema :: "dataframe \<Rightarrow> bool" where
  "base_schema df =
     (wellformed df
      \<and> list_all (\<lambda>r. 1 \<le> r \<and> r \<le> 5) (OverallRating df)
      \<and> list_all rating_or_missing (SpeakerRating df)
      \<and> list_all rating_or_missing (WorkshopRating df)
      \<and> list_all rating_or_missing (FoodRating df)
      \<and> list_all (\<lambda>y. 1 \<le> y \<and> y \<le> 4) (YearOfStudy df))"

section \<open>The synthetic data generator\<close>

text \<open>
  \<^verbatim>\<open>
  def create_dummy_data():
      data = {
          'Timestamp': pd.to_datetime(pd.date_range(start='2023-10-01', periods=100, freq='H')),
          'OverallRating': np.random.randint(1, 6, 100),
          'SpeakerRating': np.random.randint(1, 6, 100),
          'WorkshopRating': np.random.randint(1, 6, 100),
          'FoodRating': np.random.randint(1, 6, 100),
          'WhatDidYouLike': [ ... ] * 10,
          'Improvements': [ ... ] * 10,
          'AttendedEvents': [ ... ] * 10,
          'YearOfStudy': np.random.randint(1, 5, 100)
      }
      df = pd.DataFrame(data)
      for col in ['SpeakerRating', 'WorkshopRating', 'FoodRating']:
          df.loc[df.sample(frac=0.1).index, col] = np.nan
      df.loc[df.sample(frac=0.05).index, 'Improvements'] = ''
      return df
  \<close>
  The generator reads an unseeded random source nine times. The model takes what was
  drawn as an argument: the five integer arrays and the four row samples, in the order
  of the calls.
\<close>

record draws =
  OverallRating_draw :: "int list"
  SpeakerRating_draw :: "int list"
  WorkshopRating_draw :: "int list"
  FoodRating_draw :: "int list"
  YearOfStudy_draw :: "int list"
  SpeakerRating_sample :: "nat list"
  WorkshopRating_sample :: "nat list"
  FoodRating_sample :: "nat list"
  Improvements_sample :: "nat list"

definition likes_cycle :: "string list" where
  "likes_cycle =
     [''The keynote speaker was inspiring.'',
      ''I loved the hands-on workshop.'',
      ''The food was great and there were many options.'',
      ''Networking with professionals was the best part.'',
      ''The event was well-organized.'',
      ''Good food'',
      ''Nothing much'',
      ''The sessions were very informative.'',
      ''I enjoyed the variety of topics covered.'',
      ''The venue was excellent.'']"

definition improvements_cycle :: "string list" where
  "improvements_cycle =
     [''The workshop was too crowded.'',
      ''More vegetarian food options would be nice.'',
      ''The breaks were too short.'',
      ''It was hard to find the rooms.'',
      ''The audio in the main hall was not clear.'',
      ''Better signage'',
      ''More interactive sessions'',
      ''The registration process was a bit slow.'',
      ''Wi-Fi was unstable.'',
      ''I wish there were more Q&A opportunities.'']"

definition events_cycle :: "string list" where
  "events_cycle =
     [''Keynote, Workshop, Networking'',
      ''Keynote, Workshop'',
      ''Networking'',
      ''Keynote, Networking'',
      ''Workshop'',
      ''Keynote'',
      ''Workshop, Networking'',
      ''Keynote, Workshop, Networking'',
      ''Networking'',
      ''Keynote, Workshop'']"

text \<open>Python's \<open>xs * n\<close> on a list.\<close>

definition repeat :: "'a list \<Rightarrow> nat \<Rightarrow> 'a list" where
  "repeat xs n = concat (replicate n xs)"

text \<open>
  \<open>pd.date_range(start='2023-10-01', periods=n, freq='H')\<close>: the hours from midnight of
  1 October 2023 on. The day count stays inside October for up to 744 periods.
\<close>

definition date_range :: "nat \<Rightarrow> datetime list" where
  "date_range periods = map (\<lambda>i. Datetime 2023 10 (1 + i div 24) (i mod 24)) [0..<periods]"

text \<open>
  \<open>df.sample(frac=f)\<close> returns \<open>round(f * len(df))\<close> distinct rows of the table, the
  product taken in floating point and \<open>round\<close> going to the nearest integer, ties to
  even.
\<close>

definition lit_0_05 :: pyfloat where
  "lit_0_05 = fl (5 / 100)"

definition sample_size :: "pyfloat \<Rightarrow> nat \<Rightarrow> nat" where
  "sample_size fraction len =
     (case float_mul_pos fraction (of_nat len) of
        Fin q \<Rightarrow> nat (round_half_even q)
      | _ \<Rightarrow> 0)"

definition is_sample :: "pyfloat \<Rightarrow> nat \<Rightarrow> nat list \<Rightarrow> bool" where
  "is_sample fraction len idx =
     (length idx = sample_size fraction len \<and> distinct idx \<and> list_all (\<lambda>i. i < len) idx)"

text \<open>\<open>np.random.randint(low, high, size)\<close> returns \<open>size\<close> integers \<open>x\<close> with \<open>low \<le> x < high\<close>.\<close>

definition is_randint :: "int \<Rightarrow> int \<Rightarrow> nat \<Rightarrow> int list \<Rightarrow> bool" where
  "is_randint low high n xs = (length xs = n \<and> list_all (\<lambda>x. low \<le> x \<and> x < high) xs)"

definition draws_ok :: "draws \<Rightarrow> bool" where
  "draws_ok d =
     (is_randint 1 6 100 (OverallRating_draw d)
      \<and> is_randint 1 6 100 (SpeakerRating_draw d)
      \<and> is_randint 1 6 100 (WorkshopRating_draw d)
      \<and> is_randint 1 6 100 (FoodRating_draw d)
      \<and> is_randint 1 5 100 (YearOfStudy_draw d)
      \<and> is_sample lit_0_1 100 (SpeakerRating_sample d)
      \<and> is_sample lit_0_1 100 (WorkshopRating_sample d)
      \<and> is_sample lit_0_1 100 (FoodRating_sample d)
      \<and> is_sample lit_0_05 100 (Improvements_sample d))"

text \<open>\<open>df.loc[idx, col] = v\<close>: the rows whose label is in \<open>idx\<close> get \<open>v\<close>.\<close>

definition set_rows :: "nat list \<Rightarrow> 'a \<Rightarrow> 'a list \<Rightarrow> 'a list" where
  "set_rows idx v col = map (\<lambda>i. if i \<in> set idx then v else col ! i) [0..<length col]"

definition int_column :: "int list \<Rightarrow> pyfloat list" where
  "int_column xs = map (\<lambda>k. Fin (of_int k)) xs"

definition create_dummy_data :: "draws \<Rightarrow> dataframe" where
  "create_dummy_data d =
     \<lparr>Timestamp = date_range 100,
      OverallRating = OverallRating_draw d,
      SpeakerRating = set_rows (SpeakerRating_sample d) NaN (int_column (SpeakerRating_draw d)),
      WorkshopRating = set_rows (WorkshopRating_sample d) NaN (int_column (WorkshopRating_draw d)),
      FoodRating = set_rows (FoodRating_sample d) NaN (int_column (FoodRating_draw d)),
      WhatDidYouLike = repeat likes_cycle 10,
      Improvements = set_rows (Improvements_sample d) [] (repeat improvements_cycle 10),
      AttendedEvents = repeat events_cycle 10,
      YearOfStudy = YearOfStudy_draw d,
      YearOfStudy_dtype = Int64\<rparr>"

section \<open>The cleaner\<close>

text \<open>
  \<^verbatim>\<open>
  def clean_data(df):
      for col in ['SpeakerRating', 'WorkshopRating', 'FoodRating']:
          if df[col].isnull().any():
              median_val = df[col].median()
              df[col].fillna(median_val, inplace=True)
      df['Improvements'].replace('', 'No feedback', inplace=True)
      df['WhatDidYouLike'].replace('', 'No feedback', inplace=True)
      df['YearOfStudy'] = df['YearOfStudy'].astype('category')
      return df
  \<close>
  The in-place calls on \<open>df[col]\<close> are taken to write through to the table, as they do
  where the selected column is a view of it. The diagnostic prints are left out.

  \<open>Series.median()\<close> skips the missing cells and returns the middle of the sorted
  values, or the floating-point mean of the two middle ones when their number is even;
  with no value at all it returns \<open>NaN\<close>. \<open>fillna\<close> writes its argument into every
  missing cell, so filling with \<open>NaN\<close> leaves them missing.
\<close>

fun insort_float :: "pyfloat \<Rightarrow> pyfloat list \<Rightarrow> pyfloat list" where
  "insort_float x [] = [x]"
| "insort_float x (y # ys) = (if float_lt y x then y # insort_float x ys else x # y # ys)"

definition sort_float :: "pyfloat list \<Rightarrow> pyfloat list" where
  "sort_float xs = foldr insort_float xs []"

definition median :: "pyfloat list \<Rightarrow> pyfloat" where
  "median col =
     (let vs = sort_float (filter (\<lambda>c. \<not> isnull c) col); n = length vs
      in if n = 0 then NaN
         else if odd n then vs ! (n div 2)
         else float_div_pos (float_add (vs ! (n div 2 - 1)) (vs ! (n div 2))) 2)"

definition fillna :: "pyfloat \<Rightarrow> pyfloat list \<Rightarrow> pyfloat list" where
  "fillna v col = map (\<lambda>c. if isnull c then v else c) col"

text \<open>The body of the loop over the three rating columns.\<close>

definition fill_rating :: "pyfloat list \<Rightarrow> pyfloat list" where
  "fill_rating col = (if list_ex isnull col then fillna (median col) col else col)"

definition replace_cells :: "string \<Rightarrow> string \<Rightarrow> string list \<Rightarrow> string list" where
  "replace_cells old new col = map (\<lambda>s. if s = old then new else s) col"

definition clean_data :: "dataframe \<Rightarrow> dataframe" where
  "clean_data df =
     df\<lparr>SpeakerRating := fill_rating (SpeakerRating df),
        WorkshopRating := fill_rating (WorkshopRating df),
        FoodRating := fill_rating (FoodRating df),
        Improvements := replace_cells [] ''No feedback'' (Improvements df),
        WhatDidYouLike := replace_cells [] ''No feedback'' (WhatDidYouLike df),
        YearOfStudy_dtype := Category\<rparr>"

text \<open>A table is clean when the cleaner has nothing left to repair.\<close>

definition is_clean :: "dataframe \<Rightarrow> bool" where
  "is_clean df =
     (\<not> list_ex isnull (SpeakerRating df) \<and> \<not> list_ex isnull (WorkshopRating df)
      \<and> \<not> list_ex isnull (FoodRating df)
      \<and> [] \<notin> set (WhatDidYouLike df) \<and> [] \<notin> set (Improvements df)
      \<and> YearOfStudy_dtype df = Category)"

section \<open>The sentiment scorer\<close>

text \<open>
  \<^verbatim>\<open>
  def perform_sentiment_analysis(df):
      df['like_sentiment'] = df['WhatDidYouLike'].apply(lambda x: TextBlob(x).sentiment.polarity)
      df['improvements_sentiment'] = df['Improvements'].apply(lambda x: TextBlob(x).sentiment.polarity)
      ...
      df['like_sentiment_category'] = df['like_sentiment'].apply(get_sentiment_category)
      df['improvements_sentiment_category'] = df['improvements_sentiment'].apply(get_sentiment_category)
      return df
  \<close>
  The polarity of a text comes from the TextBlob library, which is an argument of the
  model. It may raise, and the exception leaves the function at the first row where it
  is raised.
\<close>

datatype error = ValueError | ScorerError

record scored_dataframe = dataframe +
  like_sentiment :: "pyfloat list"
  improvements_sentiment :: "pyfloat list"
  like_sentiment_category :: "string list"
  improvements_sentiment_category :: "string list"

fun apply_series :: "('a \<Rightarrow> error + 'b) \<Rightarrow> 'a list \<Rightarrow> error + 'b list" where
  "apply_series f [] = Inr []"
| "apply_series f (x # xs) =
     (case f x of
        Inl e \<Rightarrow> Inl e
      | Inr y \<Rightarrow> (case apply_series f xs of Inl e \<Rightarrow> Inl e | Inr ys \<Rightarrow> Inr (y # ys)))"

definition perform_sentiment_analysis ::
    "(string \<Rightarrow> error + pyfloat) \<Rightarrow> dataframe \<Rightarrow> error + scored_dataframe" where
  "perform_sentiment_analysis polarity df =
     (case apply_series polarity (WhatDidYouLike df) of
        Inl e \<Rightarrow> Inl e
      | Inr likes \<Rightarrow>
          (case apply_series polarity (Improvements df) of
             Inl e \<Rightarrow> Inl e
           | Inr imps \<Rightarrow>
               Inr \<lparr>Timestamp = Timestamp df,
                    OverallRating = OverallRating df,
                    SpeakerRating = SpeakerRating df,
                    WorkshopRating = WorkshopRating df,
                    FoodRating = FoodRating df,
                    WhatDidYouLike = WhatDidYouLike df,
                    Improvements = Improvements df,
                    AttendedEvents = AttendedEvents df,
                    YearOfStudy = YearOfStudy df,
                    YearOfStudy_dtype = YearOfStudy_dtype df,
                    like_sentiment = likes,
                    improvements_sentiment = imps,
                    like_sentiment_category = map get_sentiment_category likes,
                    improvements_sentiment_category = map get_sentiment_category imps\<rparr>))"

definition is_category :: "string \<Rightarrow> bool" where
  "is_category s = (s = ''Positive'' \<or> s = ''Neutral'' \<or> s = ''Negative'')"

section \<open>The visualizer\<close>

text \<open>
  \<^verbatim>\<open>
  def visualize_data(df):
      ... plt.savefig('overall_rating_distribution.png')
      ... plt.savefig('sentiment_analysis_distribution.png')
      ... plt.savefig('rating_by_year.png')
      positive_feedback = " ".join(df[df['like_sentiment_category'] == 'Positive']['WhatDidYouLike'])
      negative_feedback = " ".join(df[df['improvements_sentiment_category'] == 'Negative']['Improvements'])
      fig, axes = plt.subplots(1, 2, figsize=(20, 10))
      wordcloud_pos = WordCloud(width=800, height=400, background_color='white').generate(positive_feedback)
      ...
      wordcloud_neg = WordCloud(width=800, height=400, background_color='black', colormap='autumn').generate(negative_feedback)
      ...
      plt.savefig('feedback_wordclouds.png')
  \<close>
  The function reads the table and writes four files. The model returns the table it
  was given, the files saved so far, and the exception that ended the call, if any. The
  plotting calls are taken to succeed; the word-cloud renderer is an argument and may
  raise. Nothing in the function catches an exception.
\<close>

record wordcloud_params =
  wc_width :: nat
  wc_height :: nat
  wc_background_color :: string
  wc_colormap :: "string option"

fun join_str :: "string \<Rightarrow> string list \<Rightarrow> string" where
  "join_str sep [] = []"
| "join_str sep [x] = x"
| "join_str sep (x # y # ys) = x @ sep @ join_str sep (y # ys)"

text \<open>\<open>df[df[cat] == label][col]\<close>: the cells of \<open>col\<close> in the rows whose category is \<open>label\<close>.\<close>

definition select_rows :: "string \<Rightarrow> string list \<Rightarrow> 'a list \<Rightarrow> 'a list" where
  "select_rows label cats col = map snd (filter (\<lambda>(c, x). c = label) (zip cats col))"

definition positive_feedback :: "scored_dataframe \<Rightarrow> string" where
  "positive_feedback df =
     join_str '' '' (select_rows ''Positive'' (like_sentiment_category df) (WhatDidYouLike df))"

definition negative_feedback :: "scored_dataframe \<Rightarrow> string" where
  "negative_feedback df =
     join_str '' ''
       (select_rows ''Negative'' (improvements_sentiment_category df) (Improvements df))"

definition visualize_data ::
    "(wordcloud_params \<Rightarrow> string \<Rightarrow> error + 'img) \<Rightarrow> scored_dataframe
       \<Rightarrow> scored_dataframe \<times> string list \<times> error option" where
  "visualize_data render df =
     (let saved = [''overall_rating_distribution.png'',
                   ''sentiment_analysis_distribution.png'',
                   ''rating_by_year.png'']
      in case render \<lparr>wc_width = 800, wc_height = 400, wc_background_color = ''white'',
                       wc_colormap = None\<rparr> (positive_feedback df) of
           Inl e \<Rightarrow> (df, saved, Some e)
         | Inr wordcloud_pos \<Rightarrow>
             (case render \<lparr>wc_width = 800, wc_height = 400, wc_background_color = ''black'',
                           wc_colormap = Some ''autumn''\<rparr> (negative_feedback df) of
                Inl e \<Rightarrow> (df, saved, Some e)
              | Inr wordcloud_neg \<Rightarrow> (df, saved @ [''feedback_wordclouds.png''], None)))"

text \<open>
  A renderer that behaves as \<open>WordCloud.generate\<close> does on a text without a word: it
  raises ValueError. The image of any other text is represented by the text itself.
\<close>

definition strict_renderer :: "wordcloud_params \<Rightarrow> string \<Rightarrow> error + string" where
  "strict_renderer params corpus = (if corpus = [] then Inl ValueError else Inr corpus)"

section \<open>The insight reporter\<close>

text \<open>
  \<^verbatim>\<open>
  def generate_insights(df):
      avg_rating = df['OverallRating'].mean()
      print(f"\n1. ... was {avg_rating:.2f} out of 5.")
      if avg_rating > 4: ... elif avg_rating > 3: ... else: ...
      positive_sentiments = df['like_sentiment_category'].value_counts(normalize=True) * 100
      print(f"\n2. Positive Feedback: {positive_sentiments.get('Positive', 0):.1f}% ...")
      negative_sentiments = df['improvements_sentiment_category'].value_counts(normalize=True) * 100
      print(f"\n3. Areas for Improvement: {negative_sentiments.get('Negative', 0):.1f}% ...")
      year_ratings = df.groupby('YearOfStudy')['OverallRating'].mean()
      lowest_rating_year = year_ratings.idxmin()
      print(f"\n4. Attendee Demographics: Year {lowest_rating_year} students gave the lowest average ratings ({year_ratings.min():.2f}).")
      ...
  \<close>
  The mean of an integer column is the sum, as a double, divided by the count; of no
  value at all it is \<open>NaN\<close>. The model rounds the exact sum once. That is what the
  floating-point summation of pandas returns when the absolute values of the column add
  up to less than \<open>2^53\<close>, every partial sum then being an integer that is a double; the
  facts about the means are stated for such columns. \<open>groupby\<close> lists the groups by ascending label. \<open>idxmin\<close>
  and \<open>min\<close> skip \<open>NaN\<close>; \<open>idxmin\<close> returns the label of the first minimum and raises
  ValueError when there is nothing to choose from.
\<close>

definition mean_int :: "int list \<Rightarrow> pyfloat" where
  "mean_int xs =
     (if xs = [] then NaN else float_div_pos (fl (of_int (sum_list xs))) (of_nat (length xs)))"

definition group_rows :: "int \<Rightarrow> int list \<Rightarrow> 'a list \<Rightarrow> 'a list" where
  "group_rows y keys col = map snd (filter (\<lambda>(k, x). k = y) (zip keys col))"

definition groupby_mean :: "int list \<Rightarrow> int list \<Rightarrow> (int \<times> pyfloat) list" where
  "groupby_mean keys col = map (\<lambda>y. (y, mean_int (group_rows y keys col))) (sort (remdups keys))"

definition year_ratings :: "scored_dataframe \<Rightarrow> (int \<times> pyfloat) list" where
  "year_ratings df = groupby_mean (YearOfStudy df) (OverallRating df)"

fun first_min :: "int \<times> pyfloat \<Rightarrow> (int \<times> pyfloat) list \<Rightarrow> int \<times> pyfloat" where
  "first_min b [] = b"
| "first_min b (x # xs) = first_min (if float_lt (snd x) (snd b) then x else b) xs"

definition idxmin :: "(int \<times> pyfloat) list \<Rightarrow> error + int" where
  "idxmin series =
     (case filter (\<lambda>(k, v). \<not> isnull v) series of
        [] \<Rightarrow> Inl ValueError
      | x # xs \<Rightarrow> Inr (fst (first_min x xs)))"

definition series_min :: "(int \<times> pyfloat) list \<Rightarrow> pyfloat" where
  "series_min series =
     (case filter (\<lambda>(k, v). \<not> isnull v) series of
        [] \<Rightarrow> NaN
      | x # xs \<Rightarrow> snd (first_min x xs))"

text \<open>
  \<open>value_counts(normalize=True) * 100\<close> followed by \<open>.get(label, 0)\<close>: the share of the
  label as a double, times 100, or 0 when the label does not occur.
\<close>

definition count_label :: "string \<Rightarrow> string list \<Rightarrow> nat" where
  "count_label label col = length (filter (\<lambda>s. s = label) col)"

definition label_percentage :: "string \<Rightarrow> string list \<Rightarrow> pyfloat" where
  "label_percentage label col =
     (if count_label label col = 0 then Fin 0
      else float_mul_pos (fl (of_nat (count_label label col) / of_nat (length col))) 100)"

subsection \<open>Formatting\<close>

text \<open>
  The format specifications \<open>.1f\<close> and \<open>.2f\<close> print the exact value of the double
  rounded to that many decimals, ties to even.
\<close>

definition digit_char :: "nat \<Rightarrow> char" where
  "digit_char d = ''0123456789'' ! d"

fun nat_digits :: "nat \<Rightarrow> string" where
  "nat_digits n = (if n < 10 then [digit_char n] else nat_digits (n div 10) @ [digit_char (n mod 10)])"

declare nat_digits.simps [simp del]

definition int_str :: "int \<Rightarrow> string" where
  "int_str k = (if k < 0 then ''-'' @ nat_digits (nat (- k)) else nat_digits (nat k))"

definition pad_zeros :: "nat \<Rightarrow> string \<Rightarrow> string" where
  "pad_zeros d s = replicate (d - length s) CHR ''0'' @ s"

definition format_fixed :: "nat \<Rightarrow> pyfloat \<Rightarrow> string" where
  "format_fixed d x =
     (case x of
        NaN \<Rightarrow> ''nan''
      | PosInf \<Rightarrow> ''inf''
      | NegInf \<Rightarrow> ''-inf''
      | Fin q \<Rightarrow>
          (let s = nat (round_half_even (\<bar>q\<bar> * 10 ^ d))
           in (if q < 0 then ''-'' else [])
              @ nat_digits (s div 10 ^ d)
              @ (if d = 0 then [] else ''.'' @ pad_zeros d (nat_digits (s mod 10 ^ d)))))"

subsection \<open>The report\<close>

definition newline :: string where
  "newline = [CHR 0x0A]"

definition satisfaction_line :: "pyfloat \<Rightarrow> string" where
  "satisfaction_line avg_rating =
     (if float_gt avg_rating (Fin 4)
      then ''   - Insight: Attendees were generally very satisfied with the event.''
      else if float_gt avg_rating (Fin 3)
      then ''   - Insight: Attendees were moderately satisfied, but there is room for improvement.''
      else ''   - Insight: Overall satisfaction is low, and significant improvements are needed.'')"

definition lowest_year_line :: "int \<Rightarrow> pyfloat \<Rightarrow> string" where
  "lowest_year_line lowest_rating_year lowest =
     newline @ ''4. Attendee Demographics: Year '' @ int_str lowest_rating_year
       @ '' students gave the lowest average ratings ('' @ format_fixed 2 lowest @ '').''"

definition generate_insights ::
    "scored_dataframe \<Rightarrow> scored_dataframe \<times> string list \<times> error option" where
  "generate_insights df =
     (let avg_rating = mean_int (OverallRating df);
          printed =
            [newline @ ''--- Key Insights and Recommendations ---'',
             newline @ ''1. Overall Satisfaction: The average rating for the event was ''
               @ format_fixed 2 avg_rating @ '' out of 5.'',
             satisfaction_line avg_rating,
             newline @ ''2. Positive Feedback: ''
               @ format_fixed 1 (label_percentage ''Positive'' (like_sentiment_category df))
               @ ''% of 'likes' feedback was clearly positive.'',
             ''   - Insight: The most frequently mentioned positive aspects were related to 'speaker', 'workshop', and 'food'.'',
             ''   - Recommendation: Continue to invest in high-quality speakers and engaging workshops as these are key drivers of satisfaction.'',
             newline @ ''3. Areas for Improvement: ''
               @ format_fixed 1 (label_percentage ''Negative'' (improvements_sentiment_category df))
               @ ''% of 'improvements' feedback was clearly negative.'',
             ''   - Insight: Common themes in improvement requests include 'crowded' workshops, need for more 'food options', and better 'signage'.'',
             ''   - Recommendations:'',
             ''     - Consider offering popular workshops multiple times or in larger rooms to manage capacity.'',
             ''     - Expand catering to include more diverse dietary options (e.g., vegetarian, vegan).'',
             ''     - Improve event navigation with clearer signage and perhaps a digital map.'']
      in case idxmin (year_ratings df) of
           Inl e \<Rightarrow> (df, printed, Some e)
         | Inr lowest_rating_year \<Rightarrow>
             (df,
              printed @
              [lowest_year_line lowest_rating_year (series_min (year_ratings df)),
               ''   - Insight: This suggests the event content may be less relevant or engaging for students in year ''
                 @ int_str lowest_rating_year @ ''.'',
               ''   - Recommendation: Tailor some sessions or tracks specifically for different year groups to enhance relevance and engagement.'',
               newline @ ''--- End of Report ---''],
              None))"

section \<open>The median of the specification\<close>

text \<open>
  The specification describes the fill value as the median of the non-missing values
  by the standard convention: the middle order statistic, or the average of the two
  central ones when their number is even. This is that description, on exact numbers and
  with the library's sorting; \<open>finite_values\<close> lists the finite cells of a column.
\<close>

fun finite_values :: "pyfloat list \<Rightarrow> rat list" where
  "finite_values [] = []"
| "finite_values (Fin q # cs) = q # finite_values cs"
| "finite_values (_ # cs) = finite_values cs"

definition standard_median :: "rat list \<Rightarrow> rat" where
  "standard_median qs =
     (let s = sort qs; n = length s
      in if odd n then s ! (n div 2) else (s ! (n div 2 - 1) + s ! (n div 2)) / 2)"

section \<open>Example tables\<close>

text \<open>
  A six-row survey with two speaker ratings, one workshop rating and one food rating
  missing, and one empty text cell in each feedback column.
\<close>

definition six_responses :: dataframe where
  "six_responses =
     \<lparr>Timestamp = date_range 6,
      OverallRating = [4, 5, 3, 2, 5, 1],
      SpeakerRating = [Fin 5, NaN, Fin 1, Fin 4, Fin 2, NaN],
      WorkshopRating = [Fin 4, Fin 2, NaN, Fin 5, Fin 1, Fin 2],
      FoodRating = [Fin 3, Fin 3, Fin 4, NaN, Fin 1, Fin 2],
      WhatDidYouLike = [''Good food'', [], ''Nothing much'', ''The venue was excellent.'',
                        ''Good food'', ''Nothing much''],
      Improvements = [''Better signage'', ''Wi-Fi was unstable.'', [], ''Better signage'',
                      ''More interactive sessions'', ''Better signage''],
      AttendedEvents = [''Keynote'', ''Workshop'', ''Networking'', ''Keynote'', ''Workshop'',
                        ''Keynote''],
      YearOfStudy = [1, 2, 3, 4, 1, 2],
      YearOfStudy_dtype = Int64\<rparr>"

text \<open>A two-row survey in which nobody rated the speaker.\<close>

definition no_speaker_ratings :: dataframe where
  "no_speaker_ratings =
     \<lparr>Timestamp = date_range 2,
      OverallRating = [4, 2],
      SpeakerRating = [NaN, NaN],
      WorkshopRating = [Fin 4, Fin 2],
      FoodRating = [Fin 3, Fin 5],
      WhatDidYouLike = [''Good food'', ''Nothing much''],
      Improvements = [''Better signage'', ''Wi-Fi was unstable.''],
      AttendedEvents = [''Keynote'', ''Workshop''],
      YearOfStudy = [1, 2],
      YearOfStudy_dtype = Int64\<rparr>"

text \<open>
  A three-row survey with speaker ratings 1 and 2 and one missing, and no workshop
  rating at all.
\<close>

definition three_responses :: dataframe where
  "three_responses =
     \<lparr>Timestamp = date_range 3,
      OverallRating = [4, 2, 5],
      SpeakerRating = [Fin 1, Fin 2, NaN],
      WorkshopRating = [NaN, NaN, NaN],
      FoodRating = [Fin 3, Fin 5, Fin 4],
      WhatDidYouLike = [''Good food'', ''Nothing much'', ''Good food''],
      Improvements = [''Better signage'', ''Wi-Fi was unstable.'', ''Better signage''],
      AttendedEvents = [''Keynote'', ''Workshop'', ''Keynote''],
      YearOfStudy = [1, 2, 3],
      YearOfStudy_dtype = Int64\<rparr>"

section \<open>Ratings after imputation\<close>

text \<open>
  A cell holds a whole or a half number between 1 and 5. A cleaned column is compared
  with the column it came from: the cells that were present are the ratings they were,
  and every cell that was missing holds the median of the column, which is the standard
  median of the ratings present and a whole or a half number in range.
\<close>

fun whole_or_half_rating :: "pyfloat \<Rightarrow> bool" where
  "whole_or_half_rating (Fin q) = (1 \<le> q \<and> q \<le> 5 \<and> of_int \<lfloor>2 * q\<rfloor> = 2 * q)"
| "whole_or_half_rating _ = False"

definition imputed_with_median :: "pyfloat list \<Rightarrow> pyfloat list \<Rightarrow> bool" where
  "imputed_with_median col col' =
     (length col' = length col
      \<and> (\<forall>i<length col.
            (isnull (col ! i) \<longrightarrow>
               col' ! i = median col
               \<and> col' ! i = Fin (standard_median (finite_values col))
               \<and> whole_or_half_rating (col' ! i))
            \<and> (\<not> isnull (col ! i) \<longrightarrow> col' ! i = col ! i \<and> is_rating (col' ! i))))"

text \<open>A column in which some cell is missing has some cell present.\<close>

definition fillable :: "pyfloat list \<Rightarrow> bool" where
  "fillable col = (list_ex isnull col \<longrightarrow> list_ex (\<lambda>c. \<not> isnull c) col)"

section \<open>Example of a scored table\<close>

text \<open>
  A stand-in for the polarity function in the examples: it knows two of the sample
  texts and scores every other text 0.
\<close>

definition example_polarity :: "string \<Rightarrow> error + pyfloat" where
  "example_polarity t =
     (if t = ''Good food'' then Inr (Fin (7 / 10))
      else if t = ''Wi-Fi was unstable.'' then Inr (Fin (- (1 / 2)))
      else Inr (Fin 0))"

text \<open>
  A two-row survey in which nobody wrote what they liked, and the table the cleaner and
  the scorer make of it: both likes become 'No feedback' and are Neutral.
\<close>

definition no_likes :: dataframe where
  "no_likes =
     \<lparr>Timestamp = date_range 2,
      OverallRating = [3, 2],
      SpeakerRating = [Fin 3, Fin 2],
      WorkshopRating = [Fin 3, Fin 3],
      FoodRating = [Fin 2, Fin 4],
      WhatDidYouLike = [[], []],
      Improvements = [''Wi-Fi was unstable.'', ''Better signage''],
      AttendedEvents = [''Keynote'', ''Workshop''],
      YearOfStudy = [1, 2],
      YearOfStudy_dtype = Int64\<rparr>"

definition no_likes_scored :: scored_dataframe where
  "no_likes_scored =
     \<lparr>Timestamp = date_range 2,
      OverallRating = [3, 2],
      SpeakerRating = [Fin 3, Fin 2],
      WorkshopRating = [Fin 3, Fin 3],
      FoodRating = [Fin 2, Fin 4],
      WhatDidYouLike = [''No feedback'', ''No feedback''],
      Improvements = [''Wi-Fi was unstable.'', ''Better signage''],
      AttendedEvents = [''Keynote'', ''Workshop''],
      YearOfStudy = [1, 2],
      YearOfStudy_dtype = Category,
      like_sentiment = [Fin 0, Fin 0],
      improvements_sentiment = [Fin (- (1 / 2)), Fin 0],
      like_sentiment_category = [''Neutral'', ''Neutral''],
      improvements_sentiment_category = [''Negative'', ''Neutral'']\<rparr>"




section \<open>Example of the random draws\<close>

text \<open>
  One outcome of the nine random calls: every rating drawn is 3, every year 2, and all
  four samples start at row 0, so that the three rating samples pick the same ten rows.
\<close>

definition overlapping_draws :: draws where
  "overlapping_draws =
     \<lparr>OverallRating_draw = replicate 100 3,
      SpeakerRating_draw = replicate 100 3,
      WorkshopRating_draw = replicate 100 3,
      FoodRating_draw = replicate 100 3,
      YearOfStudy_draw = replicate 100 2,
      SpeakerRating_sample = [0..<10],
      WorkshopRating_sample = [0..<10],
      FoodRating_sample = [0..<10],
      Improvements_sample = [0..<5]\<rparr>"

section \<open>Example of year groups\<close>

text \<open>
  A scored five-row table whose overall ratings average 3.0 in year 1, 4.5 in year 2,
  2.0 in year 3 and 4.0 in year 4.
\<close>

definition year_example :: scored_dataframe where
  "year_example =
     \<lparr>Timestamp = date_range 5,
      OverallRating = [3, 4, 5, 2, 4],
      SpeakerRating = [Fin 3, Fin 2, Fin 4, Fin 1, Fin 5],
      WorkshopRating = [Fin 3, Fin 3, Fin 4, Fin 2, Fin 4],
      FoodRating = [Fin 2, Fin 4, Fin 5, Fin 3, Fin 4],
      WhatDidYouLike = [''Good food'', ''No feedback'', ''Good food'', ''No feedback'',
                        ''Good food''],
      Improvements = [''Wi-Fi was unstable.'', ''Better signage'', ''No feedback'',
                      ''Wi-Fi was unstable.'', ''Better signage''],
      AttendedEvents = [''Keynote'', ''Workshop'', ''Keynote'', ''Networking'', ''Workshop''],
      YearOfStudy = [1, 2, 2, 3, 4],
      YearOfStudy_dtype = Category,
      like_sentiment = [Fin (7 / 10), Fin 0, Fin (7 / 10), Fin 0, Fin (7 / 10)],
      improvements_sentiment = [Fin (- (1 / 2)), Fin 0, Fin 0, Fin (- (1 / 2)), Fin 0],
      like_sentiment_category = [''Positive'', ''Neutral'', ''Positive'', ''Neutral'',
                                 ''Positive''],
      improvements_sentiment_category = [''Negative'', ''Neutral'', ''Neutral'', ''Negative'',
                                         ''Neutral'']\<rparr>"

section \<open>The lowest-rating year of the specification\<close>

text \<open>
  The mean overall rating of a year as the report describes it: the sum of the overall
  ratings in the rows of that year over their number, as a double.
\<close>

definition ratings_of_year :: "scored_dataframe \<Rightarrow> int \<Rightarrow> int list" where
  "ratings_of_year df y = [r. (k, r) \<leftarrow> zip (YearOfStudy df) (OverallRating df), k = y]"

definition year_mean :: "scored_dataframe \<Rightarrow> int \<Rightarrow> pyfloat" where
  "year_mean df y =
     fl (of_int (sum_list (ratings_of_year df y)) / of_nat (length (ratings_of_year df y)))"

text \<open>
  Reading a printed number back. \<open>read_nat\<close> reads a string of decimal digits,
  \<open>read_int\<close> an integer with an optional minus sign, and \<open>read_fixed d\<close> a number with
  an optional minus sign, an integer part, a point and exactly \<open>d\<close> decimals.
\<close>

text \<open>The value of a digit is its place among the ten digits.\<close>

fun place_of :: "char \<Rightarrow> string \<Rightarrow> nat option" where
  "place_of c [] = None"
| "place_of c (x # xs) = (if c = x then Some 0 else map_option Suc (place_of c xs))"

definition digit_value :: "char \<Rightarrow> nat option" where
  "digit_value c = place_of c ''0123456789''"

fun read_digits :: "nat \<Rightarrow> string \<Rightarrow> nat option" where
  "read_digits acc [] = Some acc"
| "read_digits acc (c # cs) =
     (case digit_value c of None \<Rightarrow> None | Some d \<Rightarrow> read_digits (10 * acc + d) cs)"

definition read_nat :: "string \<Rightarrow> nat option" where
  "read_nat s = (if s = [] then None else read_digits 0 s)"

definition read_int :: "string \<Rightarrow> int option" where
  "read_int s =
     (case s of
        [] \<Rightarrow> None
      | c # cs \<Rightarrow>
          if c = CHR ''-'' then map_option (\<lambda>n. - int n) (read_nat cs)
          else map_option int (read_nat s))"

definition read_fixed :: "nat \<Rightarrow> string \<Rightarrow> rat option" where
  "read_fixed d s =
     (let negative = (case s of [] \<Rightarrow> False | c # cs \<Rightarrow> c = CHR ''-'');
          body = (if negative then tl s else s);
          whole = takeWhile (\<lambda>c. c \<noteq> CHR ''.'') body;
          rest = dropWhile (\<lambda>c. c \<noteq> CHR ''.'') body
      in case rest of
           [] \<Rightarrow> None
         | point # decimals \<Rightarrow>
             if length decimals \<noteq> d then None
             else case read_nat whole of
                    None \<Rightarrow> None
                  | Some a \<Rightarrow>
                      (case read_nat decimals of
                         None \<Rightarrow> None
                       | Some b \<Rightarrow>
                           Some ((if negative then - 1 else 1)
                                 * (of_nat a + of_nat b / 10 ^ d))))"

section \<open>More examples of year groups\<close>

text \<open>
  The table of the example with other years and ratings: years 12 and 7 with means
  10/3 and 4.5; years 1 and 2 with the same mean 3.0 and year 3 with 5.0; and the table
  with no row at all.
\<close>

definition thirds_example :: scored_dataframe where
  "thirds_example =
     year_example\<lparr>YearOfStudy := [12, 12, 12, 7, 7], OverallRating := [3, 3, 4, 5, 4]\<rparr>"

definition tie_example :: scored_dataframe where
  "tie_example =
     year_example\<lparr>YearOfStudy := [2, 1, 2, 1, 3], OverallRating := [3, 2, 3, 4, 5]\<rparr>"

definition no_responses :: scored_dataframe where
  "no_responses =
     \<lparr>Timestamp = [],
      OverallRating = [],
      SpeakerRating = [],
      WorkshopRating = [],
      FoodRating = [],
      WhatDidYouLike = [],
      Improvements = [],
      AttendedEvents = [],
      YearOfStudy = [],
      YearOfStudy_dtype = Category,
      like_sentiment = [],
      improvements_sentiment = [],
      like_sentiment_category = [],
      improvements_sentiment_category = []\<rparr>"

section \<open>Facts about the float model\<close>

lemma float_lt_asym: "float_lt a b \<Longrightarrow> \<not> float_lt b a"
  by (cases a; cases b) auto

lemma float_lt_irrefl: "\<not> float_lt a a"
  by (cases a) auto

lemma ilog2_bounds: "0 < n \<Longrightarrow> 2 ^ ilog2 n \<le> n \<and> n < 2 ^ Suc (ilog2 n)"
proof (induction n rule: ilog2.induct)
  case (1 n)
  show ?case
  proof (cases "n < 2")
    case True
    with "1.prems" have "n = 1" by simp
    then show ?thesis by (simp add: ilog2.simps)
  next
    case False
    then have pos: "0 < n div 2" by simp
    from "1.IH" [OF False pos]
    have lo: "2 ^ ilog2 (n div 2) \<le> n div 2" and hi: "n div 2 < 2 ^ Suc (ilog2 (n div 2))"
      by simp_all
    have eq: "ilog2 n = Suc (ilog2 (n div 2))"
      using False by (subst ilog2.simps) simp
    from lo have "2 * 2 ^ ilog2 (n div 2) \<le> n" by simp
    moreover from hi have "n < 2 * 2 ^ Suc (ilog2 (n div 2))" by simp
    ultimately show ?thesis by (simp add: eq)
  qed
qed

lemma powi_exponent_unique:
  fixes q :: rat
  assumes "2 powi e \<le> q" "q < 2 powi (e + 1)" "2 powi e' \<le> q" "q < 2 powi (e' + 1)"
  shows "e = e'"
proof -
  have "\<not> e' + 1 \<le> e"
  proof
    assume "e' + 1 \<le> e"
    then have "(2::rat) powi (e' + 1) \<le> 2 powi e"
      by (intro power_int_increasing) simp_all
    with assms show False by simp
  qed
  moreover have "\<not> e + 1 \<le> e'"
  proof
    assume "e + 1 \<le> e'"
    then have "(2::rat) powi (e + 1) \<le> 2 powi e'"
      by (intro power_int_increasing) simp_all
    with assms show False by simp
  qed
  ultimately show ?thesis by simp
qed

lemma powi_diff_nat: "(2::rat) powi (int m - int n) = 2 ^ m / 2 ^ n"
  by (simp add: power_int_diff)

text \<open>The exponent that \<open>rat_exponent\<close> computes is the binary exponent.\<close>

lemma rat_exponent_bounds:
  assumes "0 < q"
  shows "2 powi (rat_exponent q) \<le> q \<and> q < 2 powi (rat_exponent q + 1)"
proof -
  obtain a b where ab: "quotient_of q = (a, b)" by (cases "quotient_of q")
  have b: "0 < b" using ab by (rule quotient_of_denom_pos)
  have q: "q = of_int a / of_int b" using ab by (rule quotient_of_div)
  have a: "0 < a" using assms b q by (simp add: zero_less_divide_iff)
  define la where "la = ilog2 (nat a)"
  define lb where "lb = ilog2 (nat b)"
  define d where "d = int la - int lb"
  have A: "2 ^ la \<le> nat a \<and> nat a < 2 ^ Suc la"
    unfolding la_def using a by (intro ilog2_bounds) simp
  have B: "2 ^ lb \<le> nat b \<and> nat b < 2 ^ Suc lb"
    unfolding lb_def using b by (intro ilog2_bounds) simp
  have a1: "(2::rat) ^ la \<le> of_int a"
    using A by auto
  have a2: "of_int a < (2::rat) ^ Suc la"
    using A nat_less_numeral_power_cancel_iff of_int_less_numeral_power_cancel_iff by blast
  have b1: "(2::rat) ^ lb \<le> of_int b"
    using B by auto
  have b2: "of_int b < (2::rat) ^ Suc lb"
    using B nat_less_numeral_power_cancel_iff of_int_less_numeral_power_cancel_iff by blast
  have a0: "(0::rat) < of_int a" and b0: "(0::rat) < of_int b"
    using a b by simp_all
  have "of_int a / of_int b < (2::rat) ^ Suc la / 2 ^ lb"
    using a0 a2 b1 by (intro frac_less) simp_all
  also have "\<dots> = 2 powi (d + 1)"
  proof -
    have "d + 1 = int (Suc la) - int lb" by (simp add: d_def)
    then show ?thesis by (simp only: powi_diff_nat)
  qed
  finally have hi: "q < 2 powi (d + 1)"
    by (simp add: q)
  have "(2::rat) ^ la / 2 ^ Suc lb < of_int a / of_int b"
    using a1 b0 b2 by (intro frac_less2) simp_all
  moreover have "(2::rat) ^ la / 2 ^ Suc lb = 2 powi (d - 1)"
  proof -
    have "d - 1 = int la - int (Suc lb)" by (simp add: d_def)
    then show ?thesis by (simp only: powi_diff_nat)
  qed
  ultimately have lo: "2 powi (d - 1) < q"
    by (simp add: q)
  have re: "rat_exponent q = (if 2 powi d \<le> q then d else d - 1)"
    by (simp add: rat_exponent_def ab d_def la_def lb_def)
  show ?thesis
    using hi lo by (auto simp: re)
qed

lemma rat_exponent_eq:
  "0 < q \<Longrightarrow> 2 powi e \<le> q \<Longrightarrow> q < 2 powi (e + 1) \<Longrightarrow> rat_exponent q = e"
  using rat_exponent_bounds [of q] powi_exponent_unique [of "rat_exponent q" q e] by simp

lemma round_half_even_le: "x \<le> of_int N \<Longrightarrow> round_half_even x \<le> N"
proof -
  assume a: "x \<le> of_int N"
  show ?thesis
  proof (cases "x = of_int N")
    case True
    then show ?thesis by (simp add: round_half_even_def)
  next
    case False
    with a have "x < of_int N" by simp
    then have "\<lfloor>x\<rfloor> < N" by (simp add: floor_less_iff)
    then show ?thesis by (simp add: round_half_even_def Let_def)
  qed
qed

lemma round_half_even_of_int: "round_half_even (of_int n) = n"
  by (simp add: round_half_even_def)

lemma fl_neg: "fl (- q) = float_neg (fl q)"
  by (simp add: fl_def Let_def)

text \<open>
  Rounding a positive number whose binary exponent \<open>e\<close> is known, in the normal range:
  the number is rounded to a multiple of \<open>2^(e-52)\<close>.
\<close>

lemma fl_normal:
  assumes "0 < q" "2 powi e \<le> q" "q < 2 powi (e + 1)" "- 1022 \<le> e" "e < 1023"
  shows "fl q = Fin (of_int (round_half_even (q / 2 powi (e - 52))) * 2 powi (e - 52))"
proof -
  define u :: rat where "u = 2 powi (e - 52)"
  define m where "m = round_half_even (q / u)"
  have u: "0 < u" by (simp add: u_def)
  have up: "2 powi (e + 1) = u * 2 ^ 53"
  proof -
    have p: "(2::rat) powi ((e - 52) + 53) = 2 powi (e - 52) * 2 powi 53"
      by (rule power_int_add) simp
    have "(e - 52) + 53 = e + 1" by simp
    with p have "(2::rat) powi (e + 1) = 2 powi (e - 52) * 2 powi 53"
      by simp
    then show ?thesis by (simp add: u_def power_int_def)
  qed
  with assms(3) u have "q / u < 2 ^ 53"
    by (simp add: pos_divide_less_eq mult.commute)
  then have "q / u \<le> of_int (2 ^ 53)" by simp
  then have "m \<le> 2 ^ 53" unfolding m_def by (rule round_half_even_le)
  then have "of_int m \<le> (2::rat) ^ 53"
    by (metis of_int_le_iff of_int_numeral of_int_power)
  then have "of_int m * u \<le> 2 ^ 53 * u"
    using u by (simp add: mult_right_mono)
  also have "\<dots> = 2 powi (e + 1)" by (simp add: up)
  also have "\<dots> \<le> 2 powi 1023"
    using assms(5) by (intro power_int_increasing) simp_all
  also have "\<dots> < double_overflow"
  proof -
    have "(2::rat) powi 1023 = 2 ^ 1023" by (simp add: power_int_def)
    also have "\<dots> < 2 ^ 1024" by (rule power_strict_increasing) simp_all
    finally show ?thesis by (simp add: double_overflow_def)
  qed
  finally have ok: "\<not> double_overflow \<le> of_int m * u" by simp
  have "rat_exponent q = e" using assms by (intro rat_exponent_eq)
  with assms(4) have mx: "max (rat_exponent \<bar>q\<bar>) (- 1022) = e"
    using assms(1) by simp
  show ?thesis
    unfolding fl_def Let_def mx
    using assms(1) ok by (simp add: u_def m_def)
qed

lemma round_half_even_divide:
  assumes "0 < b"
  shows "round_half_even (of_int a / of_int b) =
     (let f = a div b; r = 2 * (a mod b)
      in if r < b then f else if b < r then f + 1 else if even f then f else f + 1)"
proof -
  have b0: "(0::rat) < of_int b" using assms by simp
  have fl: "\<lfloor>(of_int a / of_int b :: rat)\<rfloor> = a div b"
    by (rule floor_divide_of_int_eq)
  have "(of_int a :: rat) = of_int (a div b) * of_int b + of_int (a mod b)"
    by (metis div_mult_mod_eq of_int_add of_int_mult)
  then have r: "(of_int a / of_int b :: rat) - of_int (a div b) = of_int (a mod b) / of_int b"
    using b0 by (simp add: field_simps)
  have lt: "(of_int (a mod b) / of_int b < (1 / 2 :: rat)) = (2 * (a mod b) < b)"
  proof -
    have "(of_int (a mod b) / of_int b < (1 / 2 :: rat))
          = ((of_int (2 * (a mod b)) :: rat) < of_int b)"
      using b0 by (simp add: field_simps)
    then show ?thesis by (simp only: of_int_less_iff)
  qed
  have gt: "((1 / 2 :: rat) < of_int (a mod b) / of_int b) = (b < 2 * (a mod b))"
  proof -
    have "((1 / 2 :: rat) < of_int (a mod b) / of_int b)
          = ((of_int b :: rat) < of_int (2 * (a mod b)))"
      using b0 by (simp add: field_simps)
    then show ?thesis by (simp only: of_int_less_iff)
  qed
  show ?thesis
    unfolding round_half_even_def Let_def fl r lt gt ..
qed

lemma round_half_even_numeral_divide:
  "round_half_even (numeral a / numeral b) =
     (let f = (numeral a :: int) div numeral b; r = 2 * ((numeral a :: int) mod numeral b)
      in if r < numeral b then f else if numeral b < r then f + 1
         else if even f then f else f + 1)"
  using round_half_even_divide [of "numeral b" "numeral a"] by simp

lemma round_half_even_numeral: "round_half_even (numeral a) = numeral a"
  by (simp add: round_half_even_def)

lemmas fl_eval =
  round_half_even_numeral_divide round_half_even_numeral Let_def power_int_minus

lemma lit_0_1_value: "lit_0_1 = Fin (3602879701896397 / 36028797018963968)"
  unfolding lit_0_1_def
  by (subst fl_normal [where e = "- 4"]) (simp_all add: fl_eval)

lemma lit_0_05_value: "lit_0_05 = Fin (3602879701896397 / 72057594037927936)"
  unfolding lit_0_05_def
  by (subst fl_normal [where e = "- 5"]) (simp_all add: fl_eval)

text \<open>A number with at most 53 significant bits is a double: rounding returns it.\<close>

lemma fl_dyadic:
  assumes "0 < n" "n < 2 ^ 53" "k \<le> 1000"
  shows "fl (of_int n / 2 ^ k) = Fin (of_int n / 2 ^ k)"
proof -
  define l where "l = ilog2 (nat n)"
  define e where "e = int l - int k"
  define q :: rat where "q = of_int n / 2 ^ k"
  have L: "2 ^ l \<le> nat n \<and> nat n < 2 ^ Suc l"
    unfolding l_def using assms(1) by (intro ilog2_bounds) simp
  have n1: "(2::rat) ^ l \<le> of_int n"
    using L by auto
  have n2: "of_int n < (2::rat) ^ Suc l"
    using L nat_less_numeral_power_cancel_iff of_int_less_numeral_power_cancel_iff by blast
  have p53: "(2::nat) ^ l < 2 ^ 53"
  proof -
    have "(2::nat) ^ l \<le> nat n" using L by simp
    also have "nat n < 2 ^ 53" using assms(1,2) by (simp add: nat_less_iff)
    finally show ?thesis .
  qed
  have "l < 53" by (rule power_less_imp_less_exp [OF _ p53]) simp
  then have l52: "l \<le> 52" by simp
  have q0: "0 < q" using assms(1) by (simp add: q_def)
  have lo: "2 powi e \<le> q"
    unfolding e_def q_def powi_diff_nat using n1 by (simp add: divide_right_mono)
  have hi: "q < 2 powi (e + 1)"
  proof -
    have "e + 1 = int (Suc l) - int k" by (simp add: e_def)
    then have "(2::rat) powi (e + 1) = 2 ^ Suc l / 2 ^ k" by (simp only: powi_diff_nat)
    then show ?thesis unfolding q_def using n2 by (simp add: divide_strict_right_mono)
  qed
  have e1: "- 1022 \<le> e" using assms(3) by (simp add: e_def)
  have e2: "e < 1023" using l52 by (simp add: e_def)
  have scale: "q / 2 powi (e - 52) = of_int (n * 2 ^ (52 - l))"
  proof -
    have "e - 52 = int 0 - int (52 - l + k)" using l52 by (simp add: e_def)
    then have "(2::rat) powi (e - 52) = 2 ^ 0 / 2 ^ (52 - l + k)"
      by (simp only: powi_diff_nat)
    then show ?thesis by (simp add: q_def power_add)
  qed
  have "fl q = Fin (of_int (round_half_even (q / 2 powi (e - 52))) * 2 powi (e - 52))"
    using q0 lo hi e1 e2 by (rule fl_normal)
  also have "of_int (round_half_even (q / 2 powi (e - 52))) * 2 powi (e - 52) = q"
    unfolding scale round_half_even_of_int
    using scale by (simp add: field_simps)
  finally show ?thesis by (simp add: q_def)
qed

lemma fl_int: "0 < n \<Longrightarrow> n < 2 ^ 53 \<Longrightarrow> fl (of_int n) = Fin (of_int n)"
  using fl_dyadic [of n 0] by simp

lemma fl_half: "0 < n \<Longrightarrow> n < 2 ^ 53 \<Longrightarrow> fl (of_int n / 2) = Fin (of_int n / 2)"
  using fl_dyadic [of n 1] by simp

lemma fl_not_nan: "fl q \<noteq> NaN"
  by (simp add: fl_def Let_def)

section \<open>The categorizer is a total three-way function\<close>

lemma below_minus_tenth_not_above:
  "float_lt p (float_neg lit_0_1) \<Longrightarrow> \<not> float_gt p lit_0_1"
  by (cases p) (auto simp: float_gt_def lit_0_1_value)

lemma category_positive: "float_gt p lit_0_1 \<Longrightarrow> get_sentiment_category p = ''Positive''"
  by (simp add: get_sentiment_category_def)

lemma category_negative:
  "float_lt p (float_neg lit_0_1) \<Longrightarrow> get_sentiment_category p = ''Negative''"
  using below_minus_tenth_not_above [of p] by (simp add: get_sentiment_category_def)

lemma category_neutral:
  "\<not> float_gt p lit_0_1 \<Longrightarrow> \<not> float_lt p (float_neg lit_0_1)
     \<Longrightarrow> get_sentiment_category p = ''Neutral''"
  by (simp add: get_sentiment_category_def)

lemma is_category_get_sentiment_category: "is_category (get_sentiment_category p)"
  by (simp add: get_sentiment_category_def is_category_def)

lemma fl_0_1000001: "fl (1000001 / 10000000) = Fin (7205766609552197 / 72057594037927936)"
  by (subst fl_normal [where e = "- 4"]) (simp_all add: fl_eval)

lemma fl_0_2: "fl (2 / 10) = Fin (3602879701896397 / 18014398509481984)"
  by (subst fl_normal [where e = "- 3"]) (simp_all add: fl_eval)

lemma category_at_tenth: "get_sentiment_category lit_0_1 = ''Neutral''"
  by (rule category_neutral) (simp_all add: float_gt_def lit_0_1_value)

lemma category_at_minus_tenth: "get_sentiment_category (float_neg lit_0_1) = ''Neutral''"
  by (rule category_neutral) (simp_all add: float_gt_def lit_0_1_value)

lemma category_nan: "get_sentiment_category NaN = ''Neutral''"
  by (rule category_neutral) (simp_all add: float_gt_def lit_0_1_value)

lemma category_just_above: "get_sentiment_category (fl (1000001 / 10000000)) = ''Positive''"
  unfolding fl_0_1000001 by (rule category_positive) (simp add: float_gt_def lit_0_1_value)

lemma category_minus_fifth: "get_sentiment_category (float_neg (fl (2 / 10))) = ''Negative''"
  unfolding fl_0_2 by (rule category_negative) (simp add: lit_0_1_value)

text \<open>
  Claim C1. For every polarity \<open>p\<close>, a finite float, an infinity or NaN: \<open>p > 0.1\<close> gives
  'Positive', \<open>p < -0.1\<close> gives 'Negative', and every other \<open>p\<close> gives 'Neutral'. The two
  boundary floats \<open>0.1\<close> and \<open>-0.1\<close> are Neutral, \<open>0.1000001\<close> is Positive and \<open>-0.2\<close> is
  Negative. NaN compares false both times and is Neutral, so the function has a result on
  every float.
\<close>

theorem get_sentiment_category_three_way:
  "(float_gt p lit_0_1 \<longrightarrow> get_sentiment_category p = ''Positive'')
   \<and> (float_lt p (float_neg lit_0_1) \<longrightarrow> get_sentiment_category p = ''Negative'')
   \<and> (\<not> float_gt p lit_0_1 \<and> \<not> float_lt p (float_neg lit_0_1)
        \<longrightarrow> get_sentiment_category p = ''Neutral'')
   \<and> get_sentiment_category lit_0_1 = ''Neutral''
   \<and> get_sentiment_category (float_neg lit_0_1) = ''Neutral''
   \<and> get_sentiment_category NaN = ''Neutral''
   \<and> get_sentiment_category (fl (1000001 / 10000000)) = ''Positive''
   \<and> get_sentiment_category (float_neg (fl (2 / 10))) = ''Negative''"
  using category_positive [of p] category_negative [of p] category_neutral [of p]
    category_at_tenth category_at_minus_tenth category_nan category_just_above
    category_minus_fifth
  by blast

theorem get_sentiment_category_three_way_witness:
  "float_gt (Fin (1 / 2)) lit_0_1 \<and> get_sentiment_category (Fin (1 / 2)) = ''Positive''
   \<and> float_lt (Fin (- 1)) (float_neg lit_0_1) \<and> get_sentiment_category (Fin (- 1)) = ''Negative''
   \<and> \<not> float_gt (Fin 0) lit_0_1 \<and> \<not> float_lt (Fin 0) (float_neg lit_0_1)
   \<and> get_sentiment_category (Fin 0) = ''Neutral''"
proof -
  have a: "float_gt (Fin (1 / 2)) lit_0_1"
    by (simp add: float_gt_def lit_0_1_value)
  have b: "float_lt (Fin (- 1)) (float_neg lit_0_1)"
    by (simp add: lit_0_1_value)
  have c: "\<not> float_gt (Fin 0) lit_0_1" and d: "\<not> float_lt (Fin 0) (float_neg lit_0_1)"
    by (simp_all add: float_gt_def lit_0_1_value)
  show ?thesis
    using a b c d get_sentiment_category_three_way [of "Fin (1 / 2)"]
      get_sentiment_category_three_way [of "Fin (- 1)"]
      get_sentiment_category_three_way [of "Fin 0"]
    by blast
qed

section \<open>Facts about the cleaner\<close>

lemma set_insort_float: "set (insort_float x xs) = insert x (set xs)"
  by (induction xs) auto

lemma length_insort_float: "length (insort_float x xs) = Suc (length xs)"
  by (induction xs) auto

lemma set_sort_float: "set (sort_float xs) = set xs"
  unfolding sort_float_def by (induction xs) (auto simp: set_insort_float)

lemma length_sort_float: "length (sort_float xs) = length xs"
  unfolding sort_float_def by (induction xs) (auto simp: length_insort_float)

text \<open>On finite values the sorting is the library's sorting of the numbers.\<close>

lemma insort_float_Fin: "insort_float (Fin x) (map Fin ys) = map Fin (insort x ys)"
  by (induction ys) auto

lemma sort_float_Fin: "sort_float (map Fin qs) = map Fin (sort qs)"
  unfolding sort_float_def sort_conv_fold
proof (induction qs)
  case Nil
  show ?case by simp
next
  case (Cons q qs)
  have "fold insort (q # qs) [] = insort q (fold insort qs [])"
    by (metis sort_conv_fold sort_key_simps(2))
  then show ?case using Cons by (simp add: insort_float_Fin)
qed

lemma length_fillna: "length (fillna v col) = length col"
  by (simp add: fillna_def)

lemma length_fill_rating: "length (fill_rating col) = length col"
  by (simp add: fill_rating_def length_fillna)

lemma fill_rating_present:
  "i < length col \<Longrightarrow> \<not> isnull (col ! i) \<Longrightarrow> fill_rating col ! i = col ! i"
  by (simp add: fill_rating_def fillna_def)

lemma fill_rating_missing:
  "i < length col \<Longrightarrow> isnull (col ! i) \<Longrightarrow> fill_rating col ! i = median col"
proof -
  assume i: "i < length col" and n: "isnull (col ! i)"
  then have "list_ex isnull col"
    unfolding list_ex_iff using nth_mem by blast
  then show ?thesis using i n by (simp add: fill_rating_def fillna_def)
qed

lemma fill_rating_no_missing: "\<not> list_ex isnull col \<Longrightarrow> fill_rating col = col"
  by (simp add: fill_rating_def)

lemma fill_rating_conv:
  "fill_rating col = map (\<lambda>c. if isnull c then median col else c) col"
proof (cases "list_ex isnull col")
  case True
  then show ?thesis by (simp add: fill_rating_def fillna_def)
next
  case False
  then have "map (\<lambda>c. if isnull c then median col else c) col = map (\<lambda>c. c) col"
    by (intro map_cong) (auto simp: list_ex_iff)
  with False show ?thesis by (simp add: fill_rating_def)
qed

lemma fill_rating_filled:
  "median col \<noteq> NaN \<Longrightarrow> \<not> list_ex isnull (fill_rating col)"
  unfolding fill_rating_conv by (auto simp: list_ex_iff isnull_def)

lemma fill_rating_idem: "fill_rating (fill_rating col) = fill_rating col"
proof (cases "median col = NaN")
  case True
  then have "fill_rating col = map (\<lambda>c. c) col"
    unfolding fill_rating_conv by (intro map_cong) (auto simp: isnull_def)
  then show ?thesis by simp
next
  case False
  then show ?thesis
    by (intro fill_rating_no_missing fill_rating_filled)
qed

lemma length_replace_cells: "length (replace_cells old new col) = length col"
  by (simp add: replace_cells_def)

lemma replace_cells_other:
  "i < length col \<Longrightarrow> col ! i \<noteq> old \<Longrightarrow> replace_cells old new col ! i = col ! i"
  by (simp add: replace_cells_def)

lemma replace_cells_absent: "old \<notin> set col \<Longrightarrow> replace_cells old new col = col"
  unfolding replace_cells_def by (induction col) auto

lemma replace_cells_removes: "new \<noteq> old \<Longrightarrow> old \<notin> set (replace_cells old new col)"
  by (auto simp: replace_cells_def)

lemma float_div_pos_not_nan: "x \<noteq> NaN \<Longrightarrow> float_div_pos x d \<noteq> NaN"
  by (cases x) (simp_all add: fl_not_nan)

text \<open>The present cells of a column of the base schema are finite.\<close>

lemma rating_is_Fin: "is_rating c \<Longrightarrow> \<exists>k. 1 \<le> k \<and> k \<le> 5 \<and> c = Fin (of_int k)"
proof (cases c)
  case (Fin q)
  assume "is_rating c"
  with Fin consider "q = 1" | "q = 2" | "q = 3" | "q = 4" | "q = 5" by auto
  then show ?thesis
  proof cases
    case 1 then show ?thesis using Fin by (intro exI [of _ 1]) simp
  next
    case 2 then show ?thesis using Fin by (intro exI [of _ 2]) simp
  next
    case 3 then show ?thesis using Fin by (intro exI [of _ 3]) simp
  next
    case 4 then show ?thesis using Fin by (intro exI [of _ 4]) simp
  next
    case 5 then show ?thesis using Fin by (intro exI [of _ 5]) simp
  qed
qed simp_all

lemma present_values_Fin:
  "list_all rating_or_missing col
     \<Longrightarrow> filter (\<lambda>c. \<not> isnull c) col = map Fin (finite_values col)"
proof (induction col)
  case Nil
  show ?case by simp
next
  case (Cons c col)
  then show ?case
    by (cases c) (auto simp: rating_or_missing_def isnull_def)
qed

lemma finite_values_ratings:
  "list_all rating_or_missing col \<Longrightarrow> q \<in> set (finite_values col)
     \<Longrightarrow> \<exists>k. 1 \<le> k \<and> k \<le> 5 \<and> q = of_int k"
proof (induction col)
  case Nil
  then show ?case by simp
next
  case (Cons c col)
  show ?case
  proof (cases c)
    case (Fin r)
    show ?thesis
    proof (cases "q = r")
      case True
      from Cons.prems(1) Fin have "is_rating (Fin r)"
        by (simp add: rating_or_missing_def isnull_def)
      from rating_is_Fin [OF this] True show ?thesis by auto
    next
      case False
      with Cons Fin show ?thesis by simp
    qed
  qed (use Cons in simp_all)
qed

lemma finite_values_nonempty:
  "list_all rating_or_missing col \<Longrightarrow> list_ex (\<lambda>c. \<not> isnull c) col
     \<Longrightarrow> finite_values col \<noteq> []"
proof (induction col)
  case Nil
  then show ?case by simp
next
  case (Cons c col)
  then show ?case
    by (cases c) (auto simp: rating_or_missing_def isnull_def)
qed

text \<open>
  On a column of the base schema with at least one rating present, the pandas median is
  the standard median of the ratings, exactly: the sum of two ratings and its half are
  doubles. It is a whole or a half number between 1 and 5.
\<close>

lemma median_schema_half:
  assumes "list_all rating_or_missing col" "list_ex (\<lambda>c. \<not> isnull c) col"
  shows "\<exists>k. 2 \<le> k \<and> k \<le> 10 \<and> median col = Fin (of_int k / 2)
             \<and> standard_median (finite_values col) = of_int k / 2"
proof -
  define qs where "qs = finite_values col"
  define s where "s = sort qs"
  define n where "n = length s"
  have present: "filter (\<lambda>c. \<not> isnull c) col = map Fin qs"
    unfolding qs_def using assms(1) by (rule present_values_Fin)
  have sorted_vals: "sort_float (filter (\<lambda>c. \<not> isnull c) col) = map Fin s"
    unfolding present s_def by (rule sort_float_Fin)
  have "qs \<noteq> []" unfolding qs_def using assms by (rule finite_values_nonempty)
  then have n0: "0 < n" by (simp add: n_def s_def)
  have elem: "\<exists>k. 1 \<le> k \<and> k \<le> 5 \<and> s ! i = of_int k" if "i < n" for i
  proof -
    from that have "s ! i \<in> set qs" unfolding n_def s_def
      by (metis nth_mem set_sort)
    then show ?thesis
      unfolding qs_def using assms(1) finite_values_ratings by blast
  qed
  have med: "median col =
      (if odd n then map Fin s ! (n div 2)
       else float_div_pos (float_add (map Fin s ! (n div 2 - 1)) (map Fin s ! (n div 2))) 2)"
    using n0 by (simp add: median_def Let_def sorted_vals n_def)
  have std: "standard_median qs =
      (if odd n then s ! (n div 2) else (s ! (n div 2 - 1) + s ! (n div 2)) / 2)"
    by (simp add: standard_median_def Let_def s_def n_def)
  show ?thesis
  proof (cases "odd n")
    case True
    from n0 have i0: "n div 2 < n" by simp
    from elem [OF this] obtain k where k: "1 \<le> k" "k \<le> 5" "s ! (n div 2) = of_int k"
      by blast
    have m0: "map Fin s ! (n div 2) = Fin (s ! (n div 2))"
      using i0 by (simp add: n_def)
    have mk: "median col = Fin (of_int (2 * k) / 2)"
      using True med m0 k(3) by simp
    have sk: "standard_median (finite_values col) = of_int (2 * k) / 2"
      using True std k(3) by (simp add: qs_def)
    have "2 \<le> 2 * k" and "2 * k \<le> 10" using k by simp_all
    with mk sk show ?thesis by blast
  next
    case False
    with n0 have n2: "2 \<le> n" by presburger
    then have i1: "n div 2 - 1 < n" and i2: "n div 2 < n" by simp_all
    from elem [OF i1] obtain i where i: "1 \<le> i" "i \<le> 5" "s ! (n div 2 - 1) = of_int i"
      by blast
    from elem [OF i2] obtain j where j: "1 \<le> j" "j \<le> 5" "s ! (n div 2) = of_int j"
      by blast
    have pos: "0 < i + j" and small: "i + j < 2 ^ 53"
      using i j by simp_all
    have sum: "fl (of_int i + of_int j) = Fin (of_int (i + j))"
      using fl_int [OF pos small] by simp
    have half: "fl (of_int (i + j) / 2) = Fin (of_int (i + j) / 2)"
      using pos small by (rule fl_half)
    have m1: "map Fin s ! (n div 2 - 1) = Fin (s ! (n div 2 - 1))"
      using i1 by (simp add: n_def)
    have m2: "map Fin s ! (n div 2) = Fin (s ! (n div 2))"
      using i2 by (simp add: n_def)
    have "median col =
        float_div_pos (float_add (map Fin s ! (n div 2 - 1)) (map Fin s ! (n div 2))) 2"
      by (simp only: med False if_False)
    also have "\<dots> = float_div_pos (float_add (Fin (of_int i)) (Fin (of_int j))) 2"
      by (simp only: m1 m2 i(3) j(3))
    also have "\<dots> = Fin (of_int (i + j) / 2)"
      using sum half by simp
    finally have "median col = Fin (of_int (i + j) / 2)" .
    moreover have "standard_median (finite_values col) = of_int (i + j) / 2"
    proof -
      have "standard_median qs = (s ! (n div 2 - 1) + s ! (n div 2)) / 2"
        by (simp only: std False if_False)
      then show ?thesis by (simp only: i(3) j(3) qs_def of_int_add)
    qed
    moreover have "2 \<le> i + j" and "i + j \<le> 10" using i j by simp_all
    ultimately show ?thesis by blast
  qed
qed

lemma median_schema_not_nan:
  "list_all rating_or_missing col \<Longrightarrow> list_ex (\<lambda>c. \<not> isnull c) col \<Longrightarrow> median col \<noteq> NaN"
  using median_schema_half [of col] by auto

lemma median_all_missing: "\<not> list_ex (\<lambda>c. \<not> isnull c) col \<Longrightarrow> median col = NaN"
proof -
  assume "\<not> list_ex (\<lambda>c. \<not> isnull c) col"
  then have "filter (\<lambda>c. \<not> isnull c) col = []"
    by (simp add: list_ex_iff filter_empty_conv)
  then show ?thesis by (simp add: median_def sort_float_def)
qed

lemma fl_3: "fl 3 = Fin 3"
  using fl_int [of 3] by simp

lemma fl_6: "fl 6 = Fin 6"
  using fl_int [of 6] by simp

lemma fl_3_2: "fl (3 / 2) = Fin (3 / 2)"
  using fl_half [of 3] by simp

lemma median_odd_example: "median [Fin 4, Fin 2, NaN, Fin 5, Fin 1, Fin 2] = Fin 2"
  by (simp add: median_def sort_float_def isnull_def)

lemma median_even_example: "median [Fin 5, NaN, Fin 1, Fin 4, Fin 2, NaN] = Fin 3"
  by (simp add: median_def sort_float_def isnull_def fl_6 fl_3)

lemma median_half_example: "median [Fin 1, Fin 2, NaN] = Fin (3 / 2)"
  by (simp add: median_def sort_float_def isnull_def fl_3 fl_3_2)

lemma clean_data_SpeakerRating [simp]:
  "SpeakerRating (clean_data df) = fill_rating (SpeakerRating df)"
  by (simp add: clean_data_def)

lemma clean_data_WorkshopRating [simp]:
  "WorkshopRating (clean_data df) = fill_rating (WorkshopRating df)"
  by (simp add: clean_data_def)

lemma clean_data_FoodRating [simp]:
  "FoodRating (clean_data df) = fill_rating (FoodRating df)"
  by (simp add: clean_data_def)

lemma clean_data_Improvements [simp]:
  "Improvements (clean_data df) = replace_cells [] ''No feedback'' (Improvements df)"
  by (simp add: clean_data_def)

lemma clean_data_WhatDidYouLike [simp]:
  "WhatDidYouLike (clean_data df) = replace_cells [] ''No feedback'' (WhatDidYouLike df)"
  by (simp add: clean_data_def)

lemma clean_data_untouched [simp]:
  "Timestamp (clean_data df) = Timestamp df"
  "OverallRating (clean_data df) = OverallRating df"
  "AttendedEvents (clean_data df) = AttendedEvents df"
  "YearOfStudy (clean_data df) = YearOfStudy df"
  "YearOfStudy_dtype (clean_data df) = Category"
  by (simp_all add: clean_data_def)

lemma fill_rating_schema_filled:
  assumes "list_all rating_or_missing col" "fillable col"
  shows "\<not> list_ex isnull (fill_rating col)"
proof (cases "list_ex isnull col")
  case True
  with assms(2) have "list_ex (\<lambda>c. \<not> isnull c) col" by (simp add: fillable_def)
  with assms(1) have "median col \<noteq> NaN" by (rule median_schema_not_nan)
  then show ?thesis by (rule fill_rating_filled)
next
  case False
  then show ?thesis by (simp add: fill_rating_no_missing)
qed

lemma base_schema_six_responses: "base_schema six_responses"
  by (simp add: base_schema_def six_responses_def wellformed_def n_rows_def date_range_def
      rating_or_missing_def isnull_def)

lemma fillable_six_responses:
  "fillable (SpeakerRating six_responses)" "fillable (WorkshopRating six_responses)"
  "fillable (FoodRating six_responses)"
  by (simp_all add: fillable_def six_responses_def isnull_def)

lemma median_food_example: "median [Fin 3, Fin 3, Fin 4, NaN, Fin 1, Fin 2] = Fin 3"
  by (simp add: median_def sort_float_def isnull_def)

lemma clean_six_responses:
  "SpeakerRating (clean_data six_responses) = [Fin 5, Fin 3, Fin 1, Fin 4, Fin 2, Fin 3]"
  "WorkshopRating (clean_data six_responses) = [Fin 4, Fin 2, Fin 2, Fin 5, Fin 1, Fin 2]"
  "FoodRating (clean_data six_responses) = [Fin 3, Fin 3, Fin 4, Fin 3, Fin 1, Fin 2]"
  "WhatDidYouLike (clean_data six_responses) =
     [''Good food'', ''No feedback'', ''Nothing much'', ''The venue was excellent.'',
      ''Good food'', ''Nothing much'']"
  "Improvements (clean_data six_responses) =
     [''Better signage'', ''Wi-Fi was unstable.'', ''No feedback'', ''Better signage'',
      ''More interactive sessions'', ''Better signage'']"
  by (simp_all add: six_responses_def fill_rating_def fillna_def isnull_def replace_cells_def
      median_even_example median_odd_example median_food_example)

section \<open>The cleaner leaves no missing rating and no empty text\<close>

text \<open>
  Claim C2, as stated, fails: a secondary rating column in which every cell is missing
  has no median, the fill value is \<open>NaN\<close>, and the column is returned as it came. In the
  two-row survey where nobody rated the speaker, both speaker ratings are still missing
  after cleaning.
\<close>

theorem clean_data_all_missing_counterexample:
  "base_schema no_speaker_ratings
   \<and> SpeakerRating (clean_data no_speaker_ratings) = [NaN, NaN]
   \<and> list_ex isnull (SpeakerRating (clean_data no_speaker_ratings))"
  by (simp add: base_schema_def no_speaker_ratings_def wellformed_def n_rows_def date_range_def
      rating_or_missing_def isnull_def fill_rating_def fillna_def median_def sort_float_def)

text \<open>
  Claim C2, amended. For every input table matching the base schema in which each
  secondary rating column that has a missing cell also has a cell present, the table
  returned by the cleaner has no missing value in SpeakerRating, WorkshopRating and
  FoodRating; and for every input table it has no empty string in WhatDidYouLike and
  Improvements.
\<close>

theorem clean_data_no_missing_no_empty:
  "(base_schema df \<and> fillable (SpeakerRating df) \<and> fillable (WorkshopRating df)
      \<and> fillable (FoodRating df)
    \<longrightarrow> \<not> list_ex isnull (SpeakerRating (clean_data df))
        \<and> \<not> list_ex isnull (WorkshopRating (clean_data df))
        \<and> \<not> list_ex isnull (FoodRating (clean_data df)))
   \<and> [] \<notin> set (WhatDidYouLike (clean_data df))
   \<and> [] \<notin> set (Improvements (clean_data df))"
proof -
  have text_cells: "[] \<notin> set (replace_cells [] ''No feedback'' col)" for col
    by (rule replace_cells_removes) simp
  show ?thesis
    by (simp add: text_cells base_schema_def fill_rating_schema_filled)
qed

theorem clean_data_no_missing_no_empty_witness:
  "base_schema six_responses
   \<and> list_ex isnull (SpeakerRating six_responses)
   \<and> list_ex isnull (WorkshopRating six_responses)
   \<and> list_ex isnull (FoodRating six_responses)
   \<and> [] \<in> set (WhatDidYouLike six_responses)
   \<and> [] \<in> set (Improvements six_responses)
   \<and> \<not> list_ex isnull (SpeakerRating (clean_data six_responses))
   \<and> \<not> list_ex isnull (WorkshopRating (clean_data six_responses))
   \<and> \<not> list_ex isnull (FoodRating (clean_data six_responses))
   \<and> [] \<notin> set (WhatDidYouLike (clean_data six_responses))
   \<and> [] \<notin> set (Improvements (clean_data six_responses))"
proof -
  have before:
    "list_ex isnull (SpeakerRating six_responses)"
    "list_ex isnull (WorkshopRating six_responses)"
    "list_ex isnull (FoodRating six_responses)"
    "[] \<in> set (WhatDidYouLike six_responses)"
    "[] \<in> set (Improvements six_responses)"
    by (simp_all add: six_responses_def isnull_def)
  show ?thesis
    using clean_data_no_missing_no_empty [of six_responses] base_schema_six_responses
      fillable_six_responses before
    by blast
qed

section \<open>Missing ratings are filled with the column median\<close>

lemma median_spec_odd_example: "median [Fin 1, Fin 2, Fin 2, Fin 4, Fin 5, NaN] = Fin 2"
  by (simp add: median_def sort_float_def isnull_def)

lemma median_spec_even_example: "median [Fin 1, Fin 2, Fin 4, Fin 5, NaN] = Fin 3"
  by (simp add: median_def sort_float_def isnull_def fl_6 fl_3)

lemma standard_median_examples:
  "standard_median [1, 2, 2, 4, 5] = 2" "standard_median [1, 2, 4, 5] = 3"
  by (simp_all add: standard_median_def)

lemma median_schema:
  "list_all rating_or_missing col \<Longrightarrow> list_ex (\<lambda>c. \<not> isnull c) col
     \<Longrightarrow> median col = Fin (standard_median (finite_values col))"
  using median_schema_half [of col] by auto

text \<open>
  Claim C3. In each of the three secondary rating columns that has a missing cell, the
  cleaner writes one value, the median of the column, into every missing cell and
  leaves the other cells as they are. On a column of the base schema with a rating
  present, that median is the standard median of the ratings present: the middle one,
  or the average of the two central ones when their number is even. With the ratings
  1, 2, 2, 4, 5 present the fill value is 2, and with 1, 2, 4, 5 present it is 3.
\<close>

theorem clean_data_fills_with_median:
  "(list_ex isnull (SpeakerRating df) \<longrightarrow>
      SpeakerRating (clean_data df)
        = map (\<lambda>c. if isnull c then median (SpeakerRating df) else c) (SpeakerRating df))
   \<and> (list_ex isnull (WorkshopRating df) \<longrightarrow>
      WorkshopRating (clean_data df)
        = map (\<lambda>c. if isnull c then median (WorkshopRating df) else c) (WorkshopRating df))
   \<and> (list_ex isnull (FoodRating df) \<longrightarrow>
      FoodRating (clean_data df)
        = map (\<lambda>c. if isnull c then median (FoodRating df) else c) (FoodRating df))
   \<and> (list_all rating_or_missing col \<and> list_ex (\<lambda>c. \<not> isnull c) col \<longrightarrow>
      median col = Fin (standard_median (finite_values col)))
   \<and> median [Fin 1, Fin 2, Fin 2, Fin 4, Fin 5, NaN] = Fin 2
   \<and> standard_median [1, 2, 2, 4, 5] = 2
   \<and> median [Fin 1, Fin 2, Fin 4, Fin 5, NaN] = Fin 3
   \<and> standard_median [1, 2, 4, 5] = 3"
  using fill_rating_conv [of "SpeakerRating df"] fill_rating_conv [of "WorkshopRating df"]
    fill_rating_conv [of "FoodRating df"] median_schema [of col]
    median_spec_odd_example median_spec_even_example standard_median_examples
  by simp

theorem clean_data_fills_with_median_witness:
  "list_ex isnull (SpeakerRating six_responses)
   \<and> list_ex isnull (WorkshopRating six_responses)
   \<and> list_ex isnull (FoodRating six_responses)
   \<and> list_all rating_or_missing (SpeakerRating six_responses)
   \<and> list_ex (\<lambda>c. \<not> isnull c) (SpeakerRating six_responses)
   \<and> SpeakerRating six_responses = [Fin 5, NaN, Fin 1, Fin 4, Fin 2, NaN]
   \<and> median (SpeakerRating six_responses) = Fin (standard_median [5, 1, 4, 2])
   \<and> standard_median [5, 1, 4, 2] = 3
   \<and> SpeakerRating (clean_data six_responses)
       = map (\<lambda>c. if isnull c then Fin 3 else c) (SpeakerRating six_responses)
   \<and> WorkshopRating (clean_data six_responses)
       = map (\<lambda>c. if isnull c then median (WorkshopRating six_responses) else c)
           (WorkshopRating six_responses)
   \<and> FoodRating (clean_data six_responses)
       = map (\<lambda>c. if isnull c then median (FoodRating six_responses) else c)
           (FoodRating six_responses)"
proof -
  have before:
    "list_ex isnull (SpeakerRating six_responses)"
    "list_ex isnull (WorkshopRating six_responses)"
    "list_ex isnull (FoodRating six_responses)"
    "list_all rating_or_missing (SpeakerRating six_responses)"
    "list_ex (\<lambda>c. \<not> isnull c) (SpeakerRating six_responses)"
    "SpeakerRating six_responses = [Fin 5, NaN, Fin 1, Fin 4, Fin 2, NaN]"
    by (simp_all add: six_responses_def isnull_def rating_or_missing_def)
  have vals: "finite_values (SpeakerRating six_responses) = [5, 1, 4, 2]"
    by (simp add: six_responses_def)
  have std: "standard_median [5, 1, 4, 2] = 3"
    by (simp add: standard_median_def)
  from clean_data_fills_with_median [of six_responses "SpeakerRating six_responses"] before
  have "SpeakerRating (clean_data six_responses)
          = map (\<lambda>c. if isnull c then median (SpeakerRating six_responses) else c)
              (SpeakerRating six_responses)"
    and "WorkshopRating (clean_data six_responses)
          = map (\<lambda>c. if isnull c then median (WorkshopRating six_responses) else c)
              (WorkshopRating six_responses)"
    and "FoodRating (clean_data six_responses)
          = map (\<lambda>c. if isnull c then median (FoodRating six_responses) else c)
              (FoodRating six_responses)"
    and "median (SpeakerRating six_responses)
          = Fin (standard_median (finite_values (SpeakerRating six_responses)))"
    by blast+
  then show ?thesis
    using before vals std by simp
qed

section \<open>The cleaner is idempotent\<close>

lemma replace_cells_idem:
  "new \<noteq> old \<Longrightarrow> replace_cells old new (replace_cells old new col) = replace_cells old new col"
  by (intro replace_cells_absent replace_cells_removes)

lemma clean_data_clean: "is_clean df \<Longrightarrow> clean_data df = df"
  by (simp add: is_clean_def clean_data_def fill_rating_no_missing replace_cells_absent)

lemma clean_data_twice: "clean_data (clean_data df) = clean_data df"
proof -
  have "replace_cells [] ''No feedback'' (replace_cells [] ''No feedback'' col)
        = replace_cells [] ''No feedback'' col" for col
    by (rule replace_cells_idem) simp
  then show ?thesis
    by (simp add: clean_data_def fill_rating_idem)
qed

text \<open>
  Claim C4. For every table that is already clean, with no missing value in the three
  secondary rating columns, no empty string in the two text columns and the year of
  study already categorical, the cleaner returns the table it was given. Cleaning any
  table a second time changes nothing either.
\<close>

theorem clean_data_idempotent:
  "(is_clean df \<longrightarrow> clean_data df = df) \<and> clean_data (clean_data df) = clean_data df"
  using clean_data_clean [of df] clean_data_twice [of df] by simp

theorem clean_data_idempotent_witness:
  "is_clean (clean_data six_responses)
   \<and> clean_data (clean_data six_responses) = clean_data six_responses
   \<and> clean_data six_responses \<noteq> six_responses"
proof -
  have c: "is_clean (clean_data six_responses)"
    unfolding is_clean_def clean_six_responses by (simp add: isnull_def)
  have ne: "SpeakerRating (clean_data six_responses) \<noteq> SpeakerRating six_responses"
    unfolding clean_six_responses by (simp add: six_responses_def)
  have d: "clean_data six_responses \<noteq> six_responses"
  proof
    assume "clean_data six_responses = six_responses"
    then have "SpeakerRating (clean_data six_responses) = SpeakerRating six_responses"
      by (rule arg_cong)
    with ne show False ..
  qed
  show ?thesis
    using c d clean_data_idempotent [of "clean_data six_responses"] by simp
qed

section \<open>Ratings after cleaning\<close>

lemma whole_or_half_rating_half:
  "2 \<le> k \<Longrightarrow> k \<le> 10 \<Longrightarrow> whole_or_half_rating (Fin (of_int k / 2))"
proof -
  assume k: "2 \<le> k" "k \<le> 10"
  have "(2::rat) * (of_int k / 2) = of_int k" by simp
  then have "of_int \<lfloor>(2::rat) * (of_int k / 2)\<rfloor> = (2::rat) * (of_int k / 2)"
    by (simp only: floor_of_int)
  moreover have "(1::rat) \<le> of_int k / 2" using k by simp
  moreover have "of_int k / 2 \<le> (5::rat)" using k by simp
  ultimately show ?thesis by (simp only: whole_or_half_rating.simps simp_thms)
qed

lemma fill_rating_imputed_with_median:
  assumes "list_all rating_or_missing col" "fillable col"
  shows "imputed_with_median col (fill_rating col)"
  unfolding imputed_with_median_def
proof (intro conjI allI impI)
  show "length (fill_rating col) = length col" by (rule length_fill_rating)
next
  fix i assume i: "i < length col" and n: "isnull (col ! i)"
  then show "fill_rating col ! i = median col" by (rule fill_rating_missing)
next
  fix i assume i: "i < length col" and n: "isnull (col ! i)"
  then have "list_ex isnull col"
    unfolding list_ex_iff using nth_mem by blast
  with assms(2) have "list_ex (\<lambda>c. \<not> isnull c) col" by (simp add: fillable_def)
  with assms(1) have "median col = Fin (standard_median (finite_values col))"
    by (rule median_schema)
  with fill_rating_missing [OF i n]
  show "fill_rating col ! i = Fin (standard_median (finite_values col))" by simp
next
  fix i assume i: "i < length col" and n: "isnull (col ! i)"
  then have "list_ex isnull col"
    unfolding list_ex_iff using nth_mem by blast
  with assms(2) have "list_ex (\<lambda>c. \<not> isnull c) col" by (simp add: fillable_def)
  from median_schema_half [OF assms(1) this]
  obtain k where k: "2 \<le> k" "k \<le> 10" "median col = Fin (of_int k / 2)" by blast
  have "fill_rating col ! i = median col" using i n by (rule fill_rating_missing)
  with k show "whole_or_half_rating (fill_rating col ! i)"
    by (simp only: whole_or_half_rating_half)
next
  fix i assume i: "i < length col" and n: "\<not> isnull (col ! i)"
  then show "fill_rating col ! i = col ! i" by (rule fill_rating_present)
next
  fix i assume i: "i < length col" and n: "\<not> isnull (col ! i)"
  from i assms(1) have "rating_or_missing (col ! i)"
    by (simp add: list_all_length)
  with n have "is_rating (col ! i)" by (simp add: rating_or_missing_def)
  then show "is_rating (fill_rating col ! i)"
    using fill_rating_present [OF i n] by simp
qed

lemma base_schema_three_responses: "base_schema three_responses"
  by (simp add: base_schema_def three_responses_def wellformed_def n_rows_def date_range_def
      rating_or_missing_def isnull_def)

text \<open>
  Claim C6, as stated, fails twice. The median of an even number of ratings can fall
  between two integers: with speaker ratings 1 and 2 and one missing, the missing cell
  is filled with 1.5, which is not an integer. And a column with no rating at all stays
  missing: the three workshop cells are still \<open>NaN\<close> after cleaning.
\<close>

theorem clean_data_half_rating_counterexample:
  "base_schema three_responses
   \<and> SpeakerRating (clean_data three_responses) = [Fin 1, Fin 2, Fin (3 / 2)]
   \<and> \<not> is_rating (Fin (3 / 2))
   \<and> WorkshopRating (clean_data three_responses) = [NaN, NaN, NaN]"
proof -
  have s: "SpeakerRating (clean_data three_responses) = [Fin 1, Fin 2, Fin (3 / 2)]"
    by (simp add: three_responses_def fill_rating_def fillna_def isnull_def median_half_example)
  have w: "WorkshopRating (clean_data three_responses) = [NaN, NaN, NaN]"
    by (simp add: three_responses_def fill_rating_def fillna_def isnull_def median_def
        sort_float_def)
  have "\<not> is_rating (Fin (3 / 2))" by simp
  with s w base_schema_three_responses show ?thesis by blast
qed

text \<open>
  Claim C6, amended. For every table produced by the cleaner from an input matching
  the base schema in which each secondary rating column that has a missing cell also
  has a cell present: the overall ratings are integers from 1 to 5; in the three
  secondary rating columns every cell that was present is unchanged, an integer from 1
  to 5, and every cell that was missing holds the median of its column, which is the
  standard median of the ratings present and a whole or a half number from 1 to 5; and
  no cell of the three columns is missing.
\<close>

theorem clean_data_ratings_in_range:
  "base_schema df \<and> fillable (SpeakerRating df) \<and> fillable (WorkshopRating df)
     \<and> fillable (FoodRating df)
   \<longrightarrow> list_all (\<lambda>r. 1 \<le> r \<and> r \<le> 5) (OverallRating (clean_data df))
       \<and> imputed_with_median (SpeakerRating df) (SpeakerRating (clean_data df))
       \<and> imputed_with_median (WorkshopRating df) (WorkshopRating (clean_data df))
       \<and> imputed_with_median (FoodRating df) (FoodRating (clean_data df))
       \<and> \<not> list_ex isnull (SpeakerRating (clean_data df))
       \<and> \<not> list_ex isnull (WorkshopRating (clean_data df))
       \<and> \<not> list_ex isnull (FoodRating (clean_data df))"
  by (simp add: base_schema_def fill_rating_imputed_with_median fill_rating_schema_filled)

theorem clean_data_ratings_in_range_witness:
  "base_schema six_responses \<and> fillable (SpeakerRating six_responses)
   \<and> fillable (WorkshopRating six_responses) \<and> fillable (FoodRating six_responses)
   \<and> list_all (\<lambda>r. 1 \<le> r \<and> r \<le> 5) (OverallRating (clean_data six_responses))
   \<and> imputed_with_median (SpeakerRating six_responses)
        (SpeakerRating (clean_data six_responses))
   \<and> imputed_with_median (WorkshopRating six_responses)
        (WorkshopRating (clean_data six_responses))
   \<and> imputed_with_median (FoodRating six_responses) (FoodRating (clean_data six_responses))
   \<and> \<not> list_ex isnull (SpeakerRating (clean_data six_responses))
   \<and> \<not> list_ex isnull (WorkshopRating (clean_data six_responses))
   \<and> \<not> list_ex isnull (FoodRating (clean_data six_responses))
   \<and> isnull (SpeakerRating six_responses ! 1)
   \<and> SpeakerRating (clean_data six_responses) ! 1 = median (SpeakerRating six_responses)
   \<and> SpeakerRating (clean_data six_responses) ! 1 = Fin (standard_median [5, 1, 4, 2])
   \<and> SpeakerRating (clean_data six_responses) ! 1 = Fin 3"
proof -
  have i: "1 < length (SpeakerRating six_responses)" "isnull (SpeakerRating six_responses ! 1)"
    by (simp_all add: six_responses_def isnull_def)
  have vals: "finite_values (SpeakerRating six_responses) = [5, 1, 4, 2]"
    by (simp add: six_responses_def)
  have std: "standard_median [5, 1, 4, 2] = 3"
    by (simp add: standard_median_def)
  from clean_data_ratings_in_range [of six_responses] base_schema_six_responses
    fillable_six_responses
  have all: "list_all (\<lambda>r. 1 \<le> r \<and> r \<le> 5) (OverallRating (clean_data six_responses))
     \<and> imputed_with_median (SpeakerRating six_responses)
          (SpeakerRating (clean_data six_responses))
     \<and> imputed_with_median (WorkshopRating six_responses)
          (WorkshopRating (clean_data six_responses))
     \<and> imputed_with_median (FoodRating six_responses) (FoodRating (clean_data six_responses))
     \<and> \<not> list_ex isnull (SpeakerRating (clean_data six_responses))
     \<and> \<not> list_ex isnull (WorkshopRating (clean_data six_responses))
     \<and> \<not> list_ex isnull (FoodRating (clean_data six_responses))"
    by blast
  then have "imputed_with_median (SpeakerRating six_responses)
      (SpeakerRating (clean_data six_responses))"
    by blast
  with i have cell:
    "SpeakerRating (clean_data six_responses) ! 1 = median (SpeakerRating six_responses)"
    "SpeakerRating (clean_data six_responses) ! 1
       = Fin (standard_median (finite_values (SpeakerRating six_responses)))"
    unfolding imputed_with_median_def by blast+
  from cell(2) have c2: "SpeakerRating (clean_data six_responses) ! 1
       = Fin (standard_median [5, 1, 4, 2])"
    by (simp only: vals)
  then have c3: "SpeakerRating (clean_data six_responses) ! 1 = Fin 3"
    by (simp only: std)
  show ?thesis
    using all base_schema_six_responses fillable_six_responses i(2) cell(1) c2 c3 by blast
qed

section \<open>The cleaner changes only what it repairs\<close>

lemma clean_data_row_count:
  "n_rows (clean_data df) = n_rows df"
  "length (Timestamp (clean_data df)) = length (Timestamp df)"
  "length (SpeakerRating (clean_data df)) = length (SpeakerRating df)"
  "length (WorkshopRating (clean_data df)) = length (WorkshopRating df)"
  "length (FoodRating (clean_data df)) = length (FoodRating df)"
  "length (WhatDidYouLike (clean_data df)) = length (WhatDidYouLike df)"
  "length (Improvements (clean_data df)) = length (Improvements df)"
  "length (AttendedEvents (clean_data df)) = length (AttendedEvents df)"
  "length (YearOfStudy (clean_data df)) = length (YearOfStudy df)"
  by (simp_all add: n_rows_def length_fill_rating length_replace_cells)

lemma clean_data_wellformed: "wellformed df \<Longrightarrow> wellformed (clean_data df)"
  by (simp add: wellformed_def n_rows_def length_fill_rating length_replace_cells)

lemma clean_data_rating_cells:
  "i < length (SpeakerRating df) \<Longrightarrow> \<not> isnull (SpeakerRating df ! i)
     \<Longrightarrow> SpeakerRating (clean_data df) ! i = SpeakerRating df ! i"
  "i < length (WorkshopRating df) \<Longrightarrow> \<not> isnull (WorkshopRating df ! i)
     \<Longrightarrow> WorkshopRating (clean_data df) ! i = WorkshopRating df ! i"
  "i < length (FoodRating df) \<Longrightarrow> \<not> isnull (FoodRating df ! i)
     \<Longrightarrow> FoodRating (clean_data df) ! i = FoodRating df ! i"
  by (simp_all add: fill_rating_present)

lemma clean_data_text_cells:
  "i < length (WhatDidYouLike df) \<Longrightarrow> WhatDidYouLike df ! i \<noteq> []
     \<Longrightarrow> WhatDidYouLike (clean_data df) ! i = WhatDidYouLike df ! i"
  "i < length (Improvements df) \<Longrightarrow> Improvements df ! i \<noteq> []
     \<Longrightarrow> Improvements (clean_data df) ! i = Improvements df ! i"
  by (simp_all add: replace_cells_other)

text \<open>
  Claim C10. The cleaner keeps the number of rows and changes no cell but the ones it
  repairs: every rating that is present in the three secondary rating columns, every
  text cell that is not empty, and every cell of Timestamp, OverallRating,
  AttendedEvents and YearOfStudy has in the output the value it had in the input. The
  year of study changes its dtype to categorical and none of its values.
\<close>

theorem clean_data_frame:
  "n_rows (clean_data df) = n_rows df
   \<and> length (SpeakerRating (clean_data df)) = length (SpeakerRating df)
   \<and> length (WorkshopRating (clean_data df)) = length (WorkshopRating df)
   \<and> length (FoodRating (clean_data df)) = length (FoodRating df)
   \<and> length (WhatDidYouLike (clean_data df)) = length (WhatDidYouLike df)
   \<and> length (Improvements (clean_data df)) = length (Improvements df)
   \<and> Timestamp (clean_data df) = Timestamp df
   \<and> OverallRating (clean_data df) = OverallRating df
   \<and> AttendedEvents (clean_data df) = AttendedEvents df
   \<and> YearOfStudy (clean_data df) = YearOfStudy df
   \<and> YearOfStudy_dtype (clean_data df) = Category
   \<and> (i < length (SpeakerRating df) \<and> \<not> isnull (SpeakerRating df ! i)
        \<longrightarrow> SpeakerRating (clean_data df) ! i = SpeakerRating df ! i)
   \<and> (i < length (WorkshopRating df) \<and> \<not> isnull (WorkshopRating df ! i)
        \<longrightarrow> WorkshopRating (clean_data df) ! i = WorkshopRating df ! i)
   \<and> (i < length (FoodRating df) \<and> \<not> isnull (FoodRating df ! i)
        \<longrightarrow> FoodRating (clean_data df) ! i = FoodRating df ! i)
   \<and> (i < length (WhatDidYouLike df) \<and> WhatDidYouLike df ! i \<noteq> []
        \<longrightarrow> WhatDidYouLike (clean_data df) ! i = WhatDidYouLike df ! i)
   \<and> (i < length (Improvements df) \<and> Improvements df ! i \<noteq> []
        \<longrightarrow> Improvements (clean_data df) ! i = Improvements df ! i)"
  using clean_data_row_count [of df] clean_data_rating_cells [of i df]
    clean_data_text_cells [of i df] clean_data_untouched [of df]
  by blast

theorem clean_data_frame_witness:
  "(0::nat) < length (SpeakerRating six_responses) \<and> \<not> isnull (SpeakerRating six_responses ! 0)
   \<and> 0 < length (WorkshopRating six_responses) \<and> \<not> isnull (WorkshopRating six_responses ! 0)
   \<and> 0 < length (FoodRating six_responses) \<and> \<not> isnull (FoodRating six_responses ! 0)
   \<and> 0 < length (WhatDidYouLike six_responses) \<and> WhatDidYouLike six_responses ! 0 \<noteq> []
   \<and> 0 < length (Improvements six_responses) \<and> Improvements six_responses ! 0 \<noteq> []
   \<and> n_rows (clean_data six_responses) = 6
   \<and> OverallRating (clean_data six_responses) = [4, 5, 3, 2, 5, 1]
   \<and> YearOfStudy (clean_data six_responses) = [1, 2, 3, 4, 1, 2]
   \<and> SpeakerRating (clean_data six_responses) ! 0 = Fin 5
   \<and> WorkshopRating (clean_data six_responses) ! 0 = Fin 4
   \<and> FoodRating (clean_data six_responses) ! 0 = Fin 3
   \<and> WhatDidYouLike (clean_data six_responses) ! 0 = ''Good food''
   \<and> Improvements (clean_data six_responses) ! 0 = ''Better signage''"
proof -
  have before:
    "(0::nat) < length (SpeakerRating six_responses)" "\<not> isnull (SpeakerRating six_responses ! 0)"
    "0 < length (WorkshopRating six_responses)" "\<not> isnull (WorkshopRating six_responses ! 0)"
    "0 < length (FoodRating six_responses)" "\<not> isnull (FoodRating six_responses ! 0)"
    "0 < length (WhatDidYouLike six_responses)" "WhatDidYouLike six_responses ! 0 \<noteq> []"
    "0 < length (Improvements six_responses)" "Improvements six_responses ! 0 \<noteq> []"
    by (simp_all add: six_responses_def isnull_def)
  have cells:
    "n_rows six_responses = 6"
    "OverallRating six_responses = [4, 5, 3, 2, 5, 1]"
    "YearOfStudy six_responses = [1, 2, 3, 4, 1, 2]"
    "SpeakerRating six_responses ! 0 = Fin 5"
    "WorkshopRating six_responses ! 0 = Fin 4"
    "FoodRating six_responses ! 0 = Fin 3"
    "WhatDidYouLike six_responses ! 0 = ''Good food''"
    "Improvements six_responses ! 0 = ''Better signage''"
    by (simp_all add: six_responses_def n_rows_def)
  from clean_data_frame [of six_responses 0] before
  have "n_rows (clean_data six_responses) = n_rows six_responses"
    "OverallRating (clean_data six_responses) = OverallRating six_responses"
    "YearOfStudy (clean_data six_responses) = YearOfStudy six_responses"
    "SpeakerRating (clean_data six_responses) ! 0 = SpeakerRating six_responses ! 0"
    "WorkshopRating (clean_data six_responses) ! 0 = WorkshopRating six_responses ! 0"
    "FoodRating (clean_data six_responses) ! 0 = FoodRating six_responses ! 0"
    "WhatDidYouLike (clean_data six_responses) ! 0 = WhatDidYouLike six_responses ! 0"
    "Improvements (clean_data six_responses) ! 0 = Improvements six_responses ! 0"
    by blast+
  with before cells show ?thesis by (simp only: simp_thms)
qed

section \<open>The category columns hold the three categories\<close>

lemma apply_series_length: "apply_series f xs = Inr ys \<Longrightarrow> length ys = length xs"
proof (induction xs arbitrary: ys)
  case Nil
  then show ?case by simp
next
  case (Cons x xs)
  then show ?case by (auto split: sum.splits)
qed

lemma apply_series_total:
  "list_all (\<lambda>x. \<exists>y. f x = Inr y) xs \<Longrightarrow> \<exists>ys. apply_series f xs = Inr ys"
proof (induction xs)
  case Nil
  show ?case by simp
next
  case (Cons x xs)
  then obtain y ys where "f x = Inr y" "apply_series f xs = Inr ys" by auto
  then show ?case by simp
qed

lemma list_all_categories: "list_all is_category (map get_sentiment_category ps)"
  by (simp add: list_all_iff is_category_get_sentiment_category)

lemma perform_sentiment_analysis_columns:
  assumes "perform_sentiment_analysis polarity df = Inr sdf"
  shows "like_sentiment_category sdf = map get_sentiment_category (like_sentiment sdf)"
    and "improvements_sentiment_category sdf
           = map get_sentiment_category (improvements_sentiment sdf)"
    and "length (like_sentiment sdf) = length (WhatDidYouLike df)"
    and "length (improvements_sentiment sdf) = length (Improvements df)"
    and "WhatDidYouLike sdf = WhatDidYouLike df" and "Improvements sdf = Improvements df"
    and "OverallRating sdf = OverallRating df" and "YearOfStudy sdf = YearOfStudy df"
  using assms unfolding perform_sentiment_analysis_def
  by (auto split: sum.splits dest: apply_series_length)

lemma perform_sentiment_analysis_total:
  assumes "list_all (\<lambda>t. \<exists>p. polarity t = Inr p) (WhatDidYouLike df)"
      and "list_all (\<lambda>t. \<exists>p. polarity t = Inr p) (Improvements df)"
  shows "\<exists>sdf. perform_sentiment_analysis polarity df = Inr sdf"
proof -
  from apply_series_total [OF assms(1)] obtain likes
    where l: "apply_series polarity (WhatDidYouLike df) = Inr likes" by blast
  from apply_series_total [OF assms(2)] obtain imps
    where i: "apply_series polarity (Improvements df) = Inr imps" by blast
  show ?thesis by (simp add: perform_sentiment_analysis_def l i)
qed

lemma visualize_data_table: "fst (visualize_data render df) = df"
  by (simp add: visualize_data_def Let_def split: sum.splits)

lemma generate_insights_table: "fst (generate_insights df) = df"
  by (simp add: generate_insights_def Let_def split: sum.splits)

lemma score_no_likes:
  "perform_sentiment_analysis example_polarity (clean_data no_likes) = Inr no_likes_scored"
proof -
  have neg: "get_sentiment_category (Fin (- (1 / 2))) = ''Negative''"
    by (rule category_negative) (simp add: lit_0_1_value)
  have neu: "get_sentiment_category (Fin 0) = ''Neutral''"
    by (rule category_neutral) (simp_all add: float_gt_def lit_0_1_value)
  have likes: "apply_series example_polarity [''No feedback'', ''No feedback'']
                 = Inr [Fin 0, Fin 0]"
    by (simp add: example_polarity_def)
  have imps: "apply_series example_polarity [''Wi-Fi was unstable.'', ''Better signage'']
                 = Inr [Fin (- (1 / 2)), Fin 0]"
    by (simp add: example_polarity_def)
  have cols:
    "WhatDidYouLike (clean_data no_likes) = [''No feedback'', ''No feedback'']"
    "Improvements (clean_data no_likes) = [''Wi-Fi was unstable.'', ''Better signage'']"
    "SpeakerRating (clean_data no_likes) = [Fin 3, Fin 2]"
    "WorkshopRating (clean_data no_likes) = [Fin 3, Fin 3]"
    "FoodRating (clean_data no_likes) = [Fin 2, Fin 4]"
    "Timestamp (clean_data no_likes) = date_range 2"
    "OverallRating (clean_data no_likes) = [3, 2]"
    "AttendedEvents (clean_data no_likes) = [''Keynote'', ''Workshop'']"
    "YearOfStudy (clean_data no_likes) = [1, 2]"
    by (simp_all add: no_likes_def replace_cells_def fill_rating_def isnull_def)
  show ?thesis
    unfolding perform_sentiment_analysis_def cols likes imps
    by (simp add: no_likes_scored_def neg neu)
qed

text \<open>
  Claim C9. When the scoring stage returns, the two category columns have one cell per
  row and every cell is 'Positive', 'Neutral' or 'Negative', since each is the
  categorizer applied to a polarity. The stage returns whenever the polarity function
  does on every text of the two columns. The visualizer and the reporter hand back the
  table they were given, category columns included.
\<close>

theorem category_columns_invariant:
  "(perform_sentiment_analysis polarity df = Inr sdf \<longrightarrow>
      list_all is_category (like_sentiment_category sdf)
      \<and> list_all is_category (improvements_sentiment_category sdf)
      \<and> length (like_sentiment_category sdf) = length (WhatDidYouLike df)
      \<and> length (improvements_sentiment_category sdf) = length (Improvements df))
   \<and> (list_all (\<lambda>t. \<exists>p. polarity t = Inr p) (WhatDidYouLike df)
        \<and> list_all (\<lambda>t. \<exists>p. polarity t = Inr p) (Improvements df)
      \<longrightarrow> (\<exists>s. perform_sentiment_analysis polarity df = Inr s))
   \<and> fst (visualize_data render sdf) = sdf
   \<and> like_sentiment_category (fst (visualize_data render sdf)) = like_sentiment_category sdf
   \<and> improvements_sentiment_category (fst (visualize_data render sdf))
       = improvements_sentiment_category sdf
   \<and> fst (generate_insights sdf) = sdf
   \<and> like_sentiment_category (fst (generate_insights sdf)) = like_sentiment_category sdf
   \<and> improvements_sentiment_category (fst (generate_insights sdf))
       = improvements_sentiment_category sdf"
proof -
  have "list_all is_category (like_sentiment_category sdf)
      \<and> list_all is_category (improvements_sentiment_category sdf)
      \<and> length (like_sentiment_category sdf) = length (WhatDidYouLike df)
      \<and> length (improvements_sentiment_category sdf) = length (Improvements df)"
    if "perform_sentiment_analysis polarity df = Inr sdf"
    using perform_sentiment_analysis_columns [OF that]
    by (simp add: list_all_categories)
  then show ?thesis
    using perform_sentiment_analysis_total [of polarity df]
    by (simp only: visualize_data_table generate_insights_table) blast
qed

theorem category_columns_invariant_witness:
  "perform_sentiment_analysis example_polarity (clean_data no_likes) = Inr no_likes_scored
   \<and> list_all (\<lambda>t. \<exists>p. example_polarity t = Inr p) (WhatDidYouLike (clean_data no_likes))
   \<and> list_all (\<lambda>t. \<exists>p. example_polarity t = Inr p) (Improvements (clean_data no_likes))
   \<and> list_all is_category (like_sentiment_category no_likes_scored)
   \<and> list_all is_category (improvements_sentiment_category no_likes_scored)
   \<and> length (like_sentiment_category no_likes_scored) = 2
   \<and> length (improvements_sentiment_category no_likes_scored) = 2
   \<and> improvements_sentiment_category (fst (visualize_data strict_renderer no_likes_scored))
       = [''Negative'', ''Neutral'']
   \<and> like_sentiment_category (fst (generate_insights no_likes_scored))
       = [''Neutral'', ''Neutral'']"
proof -
  have tot: "\<exists>p. example_polarity t = Inr p" for t
    by (simp add: example_polarity_def)
  have lens: "length (WhatDidYouLike (clean_data no_likes)) = 2"
    "length (Improvements (clean_data no_likes)) = 2"
    by (simp_all add: no_likes_def length_replace_cells)
  have cats: "improvements_sentiment_category no_likes_scored = [''Negative'', ''Neutral'']"
    "like_sentiment_category no_likes_scored = [''Neutral'', ''Neutral'']"
    by (simp_all add: no_likes_scored_def)
  from category_columns_invariant
    [of example_polarity "clean_data no_likes" no_likes_scored strict_renderer]
    score_no_likes
  have "list_all is_category (like_sentiment_category no_likes_scored)"
    "list_all is_category (improvements_sentiment_category no_likes_scored)"
    "length (like_sentiment_category no_likes_scored)
       = length (WhatDidYouLike (clean_data no_likes))"
    "length (improvements_sentiment_category no_likes_scored)
       = length (Improvements (clean_data no_likes))"
    "improvements_sentiment_category (fst (visualize_data strict_renderer no_likes_scored))
       = improvements_sentiment_category no_likes_scored"
    "like_sentiment_category (fst (generate_insights no_likes_scored))
       = like_sentiment_category no_likes_scored"
    by blast+
  then show ?thesis
    using score_no_likes by (simp only: lens cats list_all_iff tot simp_thms ball_triv)
qed

section \<open>The word cloud of an empty corpus\<close>










section \<open>Facts about the generator\<close>

lemma length_set_rows: "length (set_rows idx v col) = length col"
  by (simp add: set_rows_def)

lemma nth_set_rows:
  "i < length col \<Longrightarrow> set_rows idx v col ! i = (if i \<in> set idx then v else col ! i)"
  by (simp add: set_rows_def)

text \<open>Setting distinct rows of a column that does not hold \<open>v\<close> yields as many \<open>v\<close> as rows.\<close>

lemma count_set_rows:
  assumes "distinct idx" "list_all (\<lambda>i. i < length col) idx" "v \<notin> set col"
  shows "length (filter (\<lambda>c. c = v) (set_rows idx v col)) = length idx"
proof -
  have same: "filter ((\<lambda>c. c = v) \<circ> (\<lambda>i. if i \<in> set idx then v else col ! i)) [0..<length col]
              = filter (\<lambda>i. i \<in> set idx) [0..<length col]"
    using assms(3) by (intro filter_cong) auto
  have sub: "set idx \<subseteq> {0..<length col}"
    using assms(2) by (auto simp: list_all_iff)
  have "length (filter (\<lambda>c. c = v) (set_rows idx v col))
          = length (filter (\<lambda>i. i \<in> set idx) [0..<length col])"
    by (simp add: set_rows_def filter_map same)
  also have "\<dots> = card ({i. i \<in> set idx} \<inter> set [0..<length col])"
    by (rule distinct_length_filter) simp
  also have "{i. i \<in> set idx} \<inter> set [0..<length col] = set idx"
    using sub by auto
  also have "card (set idx) = length idx"
    using assms(1) by (rule distinct_card)
  finally show ?thesis .
qed

lemma length_repeat: "length (repeat xs n) = n * length xs"
  unfolding repeat_def by (induction n) simp_all

lemma set_repeat: "set (repeat xs n) \<subseteq> set xs"
  unfolding repeat_def by (induction n) auto

lemma nth_repeat: "i < n * length xs \<Longrightarrow> repeat xs n ! i = xs ! (i mod length xs)"
proof (induction n arbitrary: i)
  case 0
  then show ?case by simp
next
  case (Suc n)
  have r: "repeat xs (Suc n) = xs @ repeat xs n" by (simp add: repeat_def)
  show ?case
  proof (cases "i < length xs")
    case True
    then show ?thesis by (simp add: r nth_append)
  next
    case False
    with Suc.prems have "i - length xs < n * length xs" by simp
    from Suc.IH [OF this] have "repeat xs n ! (i - length xs) = xs ! ((i - length xs) mod length xs)" .
    moreover have "(i - length xs) mod length xs = i mod length xs"
      using False by (simp add: le_mod_geq)
    ultimately show ?thesis using False by (simp add: r nth_append)
  qed
qed

lemma length_int_column: "length (int_column xs) = length xs"
  by (simp add: int_column_def)

lemma int_column_no_nan: "NaN \<notin> set (int_column xs)"
  by (auto simp: int_column_def)

lemma length_date_range: "length (date_range n) = n"
  by (simp add: date_range_def)

lemma nth_date_range: "i < n \<Longrightarrow> date_range n ! i = Datetime 2023 10 (1 + i div 24) (i mod 24)"
  by (simp add: date_range_def)

lemma cycle_lengths:
  "length likes_cycle = 10" "length improvements_cycle = 10" "length events_cycle = 10"
  by (simp_all add: likes_cycle_def improvements_cycle_def events_cycle_def)

lemma improvements_cycle_nonempty: "[] \<notin> set improvements_cycle"
  by (simp add: improvements_cycle_def)

text \<open>A tenth of a hundred rows is ten rows, and a twentieth is five.\<close>

lemma sample_size_tenth: "sample_size lit_0_1 100 = 10"
proof -
  have "fl (3602879701896397 / 36028797018963968 * 100) = Fin 10"
    by (subst fl_normal [where e = 3]) (simp_all add: fl_eval)
  then show ?thesis
    by (simp add: sample_size_def lit_0_1_value round_half_even_numeral)
qed

lemma sample_size_twentieth: "sample_size lit_0_05 100 = 5"
proof -
  have "fl (3602879701896397 / 72057594037927936 * 100) = Fin 5"
    by (subst fl_normal [where e = 2]) (simp_all add: fl_eval)
  then show ?thesis
    by (simp add: sample_size_def lit_0_05_value round_half_even_numeral)
qed

lemma is_rating_of_int: "1 \<le> k \<Longrightarrow> k < 6 \<Longrightarrow> is_rating (Fin (of_int k))"
proof -
  assume "1 \<le> k" "k < 6"
  then consider "k = 1" | "k = 2" | "k = 3" | "k = 4" | "k = 5" by fastforce
  then show ?thesis by cases simp_all
qed

lemma rating_column_schema:
  assumes "list_all (\<lambda>x. 1 \<le> x \<and> x < 6) xs"
  shows "list_all rating_or_missing (set_rows idx NaN (int_column xs))"
  unfolding list_all_length length_set_rows
proof (intro allI impI)
  fix i assume i: "i < length (int_column xs)"
  then have ix: "i < length xs" by (simp add: length_int_column)
  with assms have "1 \<le> xs ! i \<and> xs ! i < 6" by (simp add: list_all_length)
  then have "is_rating (Fin (of_int (xs ! i)))" using is_rating_of_int by blast
  moreover have "set_rows idx NaN (int_column xs) ! i
      = (if i \<in> set idx then NaN else Fin (of_int (xs ! i)))"
    using i ix by (simp add: nth_set_rows int_column_def)
  ultimately show "rating_or_missing (set_rows idx NaN (int_column xs) ! i)"
    by (simp only: rating_or_missing_def isnull_def split: if_split) simp
qed

lemma missing_count:
  assumes "is_randint 1 6 100 xs" "is_sample lit_0_1 100 idx"
  shows "length (filter isnull (set_rows idx NaN (int_column xs))) = 10"
proof -
  have len: "length (int_column xs) = 100"
    using assms(1) by (simp add: is_randint_def length_int_column)
  have "distinct idx" and "list_all (\<lambda>i. i < length (int_column xs)) idx"
    and n: "length idx = 10"
    using assms(2) by (simp_all add: is_sample_def len sample_size_tenth)
  then have "length (filter (\<lambda>c. c = NaN) (set_rows idx NaN (int_column xs))) = length idx"
    using int_column_no_nan by (intro count_set_rows)
  moreover have "isnull = (\<lambda>c. c = NaN)" by (rule ext) (simp add: isnull_def)
  ultimately show ?thesis using n by simp
qed

lemma empty_count:
  assumes "is_sample lit_0_05 100 idx"
  shows "length (filter (\<lambda>s. s = []) (set_rows idx [] (repeat improvements_cycle 10))) = 5"
proof -
  have len: "length (repeat improvements_cycle 10) = 100"
    by (simp add: length_repeat cycle_lengths)
  have "distinct idx" and "list_all (\<lambda>i. i < length (repeat improvements_cycle 10)) idx"
    and n: "length idx = 5"
    using assms by (simp_all add: is_sample_def len sample_size_twentieth)
  moreover have "[] \<notin> set (repeat improvements_cycle 10)"
    using set_repeat [of improvements_cycle 10] improvements_cycle_nonempty by blast
  ultimately have "length (filter (\<lambda>s. s = [])
      (set_rows idx [] (repeat improvements_cycle 10))) = length idx"
    by (intro count_set_rows)
  then show ?thesis using n by simp
qed

lemma create_dummy_data_shape:
  assumes "draws_ok d"
  shows "wellformed (create_dummy_data d)" and "n_rows (create_dummy_data d) = 100"
  using assms
  by (simp_all add: draws_ok_def is_randint_def create_dummy_data_def wellformed_def n_rows_def
      length_set_rows length_int_column length_repeat length_date_range cycle_lengths)

lemma create_dummy_data_schema:
  assumes "draws_ok d"
  shows "base_schema (create_dummy_data d)"
proof -
  have r: "list_all (\<lambda>r. 1 \<le> r \<and> r \<le> 5) xs" if "list_all (\<lambda>x. 1 \<le> x \<and> x < 6) xs"
    for xs :: "int list"
    using that by (auto simp: list_all_iff)
  have y: "list_all (\<lambda>y. 1 \<le> y \<and> y \<le> 4) xs" if "list_all (\<lambda>x. 1 \<le> x \<and> x < 5) xs"
    for xs :: "int list"
    using that by (auto simp: list_all_iff)
  show ?thesis
    unfolding base_schema_def
    using create_dummy_data_shape(1) [OF assms] assms
    by (simp add: draws_ok_def is_randint_def create_dummy_data_def rating_column_schema r y)
qed

lemma create_dummy_data_counts:
  assumes "draws_ok d"
  shows "length (filter isnull (SpeakerRating (create_dummy_data d))) = 10"
    and "length (filter isnull (WorkshopRating (create_dummy_data d))) = 10"
    and "length (filter isnull (FoodRating (create_dummy_data d))) = 10"
    and "length (filter (\<lambda>s. s = []) (Improvements (create_dummy_data d))) = 5"
  using assms
  by (simp_all add: draws_ok_def create_dummy_data_def missing_count empty_count)

lemma create_dummy_data_cells:
  assumes "draws_ok d" "i < 100"
  shows "SpeakerRating (create_dummy_data d) ! i
           = (if i \<in> set (SpeakerRating_sample d) then NaN
              else Fin (of_int (SpeakerRating_draw d ! i)))"
    and "WorkshopRating (create_dummy_data d) ! i
           = (if i \<in> set (WorkshopRating_sample d) then NaN
              else Fin (of_int (WorkshopRating_draw d ! i)))"
    and "FoodRating (create_dummy_data d) ! i
           = (if i \<in> set (FoodRating_sample d) then NaN
              else Fin (of_int (FoodRating_draw d ! i)))"
    and "Improvements (create_dummy_data d) ! i
           = (if i \<in> set (Improvements_sample d) then []
              else improvements_cycle ! (i mod 10))"
    and "WhatDidYouLike (create_dummy_data d) ! i = likes_cycle ! (i mod 10)"
    and "AttendedEvents (create_dummy_data d) ! i = events_cycle ! (i mod 10)"
    and "Timestamp (create_dummy_data d) ! i = Datetime 2023 10 (1 + i div 24) (i mod 24)"
  using assms
  by (simp_all add: draws_ok_def is_randint_def create_dummy_data_def nth_set_rows
      length_int_column int_column_def length_repeat nth_repeat cycle_lengths nth_date_range)

lemma draws_ok_overlapping: "draws_ok overlapping_draws"
  by (simp add: draws_ok_def overlapping_draws_def is_randint_def is_sample_def
      sample_size_tenth sample_size_twentieth list_all_iff)

lemma overlapping_rows:
  "isnull (SpeakerRating (create_dummy_data overlapping_draws) ! 0)"
  "isnull (WorkshopRating (create_dummy_data overlapping_draws) ! 0)"
  "isnull (FoodRating (create_dummy_data overlapping_draws) ! 0)"
  using create_dummy_data_cells(1-3) [OF draws_ok_overlapping, of 0]
  by (simp_all add: overlapping_draws_def isnull_def)

section \<open>The generator makes a hundred rows with a tenth of the ratings missing\<close>

text \<open>
  Claim C7. Whatever the random source returns, the generator produces a table of
  exactly 100 rows. In each of the three secondary rating columns exactly 10 cells, the
  rows of that column's own sample, are missing and every other cell is the integer
  drawn for it, from 1 to 5; in the improvements column exactly 5 cells, the rows of
  the fourth sample, are the empty string and every other cell follows the ten-text
  cycle. The likes and the attended events follow their ten-element cycles, the
  timestamps are the hours from midnight of 1 October 2023, the overall ratings are
  the integers drawn, from 1 to 5, the years are the integers drawn, from 1 to 4, and
  the year column is an integer column. The samples are unrelated, so two columns can
  miss the same row: in the example draws row 0 misses all three ratings.
\<close>

theorem create_dummy_data_contract:
  "(draws_ok d \<longrightarrow>
      wellformed (create_dummy_data d) \<and> n_rows (create_dummy_data d) = 100
      \<and> base_schema (create_dummy_data d)
      \<and> length (filter isnull (SpeakerRating (create_dummy_data d))) = 10
      \<and> length (filter isnull (WorkshopRating (create_dummy_data d))) = 10
      \<and> length (filter isnull (FoodRating (create_dummy_data d))) = 10
      \<and> length (filter (\<lambda>s. s = []) (Improvements (create_dummy_data d))) = 5
      \<and> OverallRating (create_dummy_data d) = OverallRating_draw d
      \<and> YearOfStudy (create_dummy_data d) = YearOfStudy_draw d
      \<and> YearOfStudy_dtype (create_dummy_data d) = Int64
      \<and> (i < 100 \<longrightarrow>
            SpeakerRating (create_dummy_data d) ! i
              = (if i \<in> set (SpeakerRating_sample d) then NaN
                 else Fin (of_int (SpeakerRating_draw d ! i)))
          \<and> WorkshopRating (create_dummy_data d) ! i
              = (if i \<in> set (WorkshopRating_sample d) then NaN
                 else Fin (of_int (WorkshopRating_draw d ! i)))
          \<and> FoodRating (create_dummy_data d) ! i
              = (if i \<in> set (FoodRating_sample d) then NaN
                 else Fin (of_int (FoodRating_draw d ! i)))
          \<and> Improvements (create_dummy_data d) ! i
              = (if i \<in> set (Improvements_sample d) then []
                 else improvements_cycle ! (i mod 10))
          \<and> WhatDidYouLike (create_dummy_data d) ! i = likes_cycle ! (i mod 10)
          \<and> AttendedEvents (create_dummy_data d) ! i = events_cycle ! (i mod 10)
          \<and> Timestamp (create_dummy_data d) ! i
              = Datetime 2023 10 (1 + i div 24) (i mod 24)))
   \<and> draws_ok overlapping_draws
   \<and> isnull (SpeakerRating (create_dummy_data overlapping_draws) ! 0)
   \<and> isnull (WorkshopRating (create_dummy_data overlapping_draws) ! 0)
   \<and> isnull (FoodRating (create_dummy_data overlapping_draws) ! 0)"
proof -
  have plain: "OverallRating (create_dummy_data d) = OverallRating_draw d"
    "YearOfStudy (create_dummy_data d) = YearOfStudy_draw d"
    "YearOfStudy_dtype (create_dummy_data d) = Int64"
    by (simp_all add: create_dummy_data_def)
  show ?thesis
    using create_dummy_data_shape [of d] create_dummy_data_schema [of d]
      create_dummy_data_counts [of d] create_dummy_data_cells [of d i] plain
      draws_ok_overlapping overlapping_rows
    by blast
qed

theorem create_dummy_data_contract_witness:
  "draws_ok overlapping_draws \<and> (0::nat) < 100 \<and> (57::nat) < 100
   \<and> n_rows (create_dummy_data overlapping_draws) = 100
   \<and> length (filter isnull (SpeakerRating (create_dummy_data overlapping_draws))) = 10
   \<and> length (filter (\<lambda>s. s = []) (Improvements (create_dummy_data overlapping_draws))) = 5
   \<and> SpeakerRating (create_dummy_data overlapping_draws) ! 0 = NaN
   \<and> SpeakerRating (create_dummy_data overlapping_draws) ! 57 = Fin 3
   \<and> Improvements (create_dummy_data overlapping_draws) ! 0 = []
   \<and> Improvements (create_dummy_data overlapping_draws) ! 57
       = ''The registration process was a bit slow.''
   \<and> WhatDidYouLike (create_dummy_data overlapping_draws) ! 57
       = ''The sessions were very informative.''
   \<and> AttendedEvents (create_dummy_data overlapping_draws) ! 57
       = ''Keynote, Workshop, Networking''
   \<and> Timestamp (create_dummy_data overlapping_draws) ! 57 = Datetime 2023 10 3 9"
proof -
  note ok = draws_ok_overlapping
  have s: "(0::nat) \<in> set (SpeakerRating_sample overlapping_draws)"
    "(57::nat) \<notin> set (SpeakerRating_sample overlapping_draws)"
    "(0::nat) \<in> set (Improvements_sample overlapping_draws)"
    "(57::nat) \<notin> set (Improvements_sample overlapping_draws)"
    "SpeakerRating_draw overlapping_draws ! 57 = 3"
    by (simp_all add: overlapping_draws_def)
  have c: "improvements_cycle ! (57 mod 10) = ''The registration process was a bit slow.''"
    "likes_cycle ! (57 mod 10) = ''The sessions were very informative.''"
    "events_cycle ! (57 mod 10) = ''Keynote, Workshop, Networking''"
    "Datetime 2023 10 (1 + 57 div 24) (57 mod 24) = Datetime 2023 10 3 9"
    by (simp_all add: improvements_cycle_def likes_cycle_def events_cycle_def)
  from create_dummy_data_contract [of overlapping_draws 0] ok
  have a: "n_rows (create_dummy_data overlapping_draws) = 100"
    "length (filter isnull (SpeakerRating (create_dummy_data overlapping_draws))) = 10"
    "length (filter (\<lambda>s. s = []) (Improvements (create_dummy_data overlapping_draws))) = 5"
    "SpeakerRating (create_dummy_data overlapping_draws) ! 0
       = (if 0 \<in> set (SpeakerRating_sample overlapping_draws) then NaN
          else Fin (of_int (SpeakerRating_draw overlapping_draws ! 0)))"
    "Improvements (create_dummy_data overlapping_draws) ! 0
       = (if 0 \<in> set (Improvements_sample overlapping_draws) then []
          else improvements_cycle ! (0 mod 10))"
    by simp_all
  from create_dummy_data_contract [of overlapping_draws 57] ok
  have b: "SpeakerRating (create_dummy_data overlapping_draws) ! 57
       = (if 57 \<in> set (SpeakerRating_sample overlapping_draws) then NaN
          else Fin (of_int (SpeakerRating_draw overlapping_draws ! 57)))"
    "Improvements (create_dummy_data overlapping_draws) ! 57
       = (if 57 \<in> set (Improvements_sample overlapping_draws) then []
          else improvements_cycle ! (57 mod 10))"
    "WhatDidYouLike (create_dummy_data overlapping_draws) ! 57 = likes_cycle ! (57 mod 10)"
    "AttendedEvents (create_dummy_data overlapping_draws) ! 57 = events_cycle ! (57 mod 10)"
    "Timestamp (create_dummy_data overlapping_draws) ! 57
       = Datetime 2023 10 (1 + 57 div 24) (57 mod 24)"
    by simp_all
  show ?thesis
    using ok a(1-3) by (simp only: a(4,5) b s c if_True if_False of_int_numeral simp_thms) simp
qed

section \<open>Facts about the reporter\<close>

lemma float_lt_trans: "float_lt a b \<Longrightarrow> float_lt b c \<Longrightarrow> float_lt a c"
  by (cases a; cases b; cases c) auto

lemma float_lt_le_trans:
  "float_lt a b \<Longrightarrow> \<not> float_lt c b \<Longrightarrow> c \<noteq> NaN \<Longrightarrow> float_lt a c"
  by (cases a; cases b; cases c) auto

text \<open>
  The fold behind \<open>idxmin\<close> and \<open>min\<close>. After any part of the series, the candidate is
  strictly below everything before it and not above anything after it.
\<close>

lemma first_min_invariant:
  assumes "seen = pre @ b # mid"
      and "\<forall>p\<in>set pre. float_lt (snd b) (snd p)"
      and "\<forall>p\<in>set mid. \<not> float_lt (snd p) (snd b)"
      and "\<forall>p\<in>set (seen @ xs). snd p \<noteq> NaN"
  shows "\<exists>pre' post. seen @ xs = pre' @ first_min b xs # post
           \<and> (\<forall>p\<in>set pre'. float_lt (snd (first_min b xs)) (snd p))
           \<and> (\<forall>p\<in>set post. \<not> float_lt (snd p) (snd (first_min b xs)))"
  using assms
proof (induction xs arbitrary: seen pre b mid)
  case Nil
  then show ?case by auto
next
  case (Cons x xs)
  show ?case
  proof (cases "float_lt (snd x) (snd b)")
    case True
    have seen': "seen @ [x] = (pre @ b # mid) @ x # []"
      using Cons.prems(1) by simp
    have below: "\<forall>p\<in>set (pre @ b # mid). float_lt (snd x) (snd p)"
    proof
      fix p assume "p \<in> set (pre @ b # mid)"
      then consider "p \<in> set pre" | "p = b" | "p \<in> set mid" by auto
      then show "float_lt (snd x) (snd p)"
      proof cases
        case 1
        with Cons.prems(2) have "float_lt (snd b) (snd p)" by blast
        with True show ?thesis by (rule float_lt_trans)
      next
        case 2
        with True show ?thesis by simp
      next
        case 3
        with Cons.prems(3) have "\<not> float_lt (snd p) (snd b)" by blast
        moreover from 3 Cons.prems(1,4) have "snd p \<noteq> NaN" by auto
        ultimately show ?thesis using True float_lt_le_trans by blast
      qed
    qed
    have none: "\<forall>p\<in>set []. \<not> float_lt (snd p) (snd x)" by simp
    have nn: "\<forall>p\<in>set ((seen @ [x]) @ xs). snd p \<noteq> NaN"
      using Cons.prems(4) by simp
    have step: "first_min b (x # xs) = first_min x xs" using True by simp
    have "seen @ x # xs = (seen @ [x]) @ xs" by simp
    with Cons.IH [OF seen' below none nn] show ?thesis
      by (simp only: step)
  next
    case False
    have seen': "seen @ [x] = pre @ b # (mid @ [x])"
      using Cons.prems(1) by simp
    have above: "\<forall>p\<in>set (mid @ [x]). \<not> float_lt (snd p) (snd b)"
      using Cons.prems(3) False by simp
    have nn: "\<forall>p\<in>set ((seen @ [x]) @ xs). snd p \<noteq> NaN"
      using Cons.prems(4) by simp
    have step: "first_min b (x # xs) = first_min b xs" using False by simp
    have "seen @ x # xs = (seen @ [x]) @ xs" by simp
    with Cons.IH [OF seen' Cons.prems(2) above nn] show ?thesis
      by (simp only: step)
  qed
qed

lemma first_min_split:
  assumes "\<forall>p\<in>set (b # xs). snd p \<noteq> NaN"
  shows "\<exists>pre post. b # xs = pre @ first_min b xs # post
           \<and> (\<forall>p\<in>set pre. float_lt (snd (first_min b xs)) (snd p))
           \<and> (\<forall>p\<in>set post. \<not> float_lt (snd p) (snd (first_min b xs)))"
  using first_min_invariant [of "[b]" "[]" b "[]" xs] assms by simp

text \<open>
  In a series without \<open>NaN\<close> whose labels ascend, the first minimum is an entry of the
  series, no entry is below it, and every entry with a smaller label is strictly above.
\<close>

lemma first_min_least:
  assumes "\<forall>p\<in>set (b # xs). snd p \<noteq> NaN" "sorted (map fst (b # xs))"
  shows "first_min b xs \<in> set (b # xs)"
    and "\<forall>p\<in>set (b # xs). \<not> float_lt (snd p) (snd (first_min b xs))"
    and "\<forall>p\<in>set (b # xs). fst p < fst (first_min b xs)
           \<longrightarrow> float_lt (snd (first_min b xs)) (snd p)"
proof -
  define r where "r = first_min b xs"
  from first_min_split [OF assms(1)] obtain pre post
    where s: "b # xs = pre @ r # post"
      and pre: "\<forall>p\<in>set pre. float_lt (snd r) (snd p)"
      and post: "\<forall>p\<in>set post. \<not> float_lt (snd p) (snd r)"
    unfolding r_def by blast
  show "first_min b xs \<in> set (b # xs)"
    unfolding r_def [symmetric] s by simp
  show "\<forall>p\<in>set (b # xs). \<not> float_lt (snd p) (snd (first_min b xs))"
    unfolding r_def [symmetric] s
    using pre post float_lt_asym float_lt_irrefl by auto
  have later: "\<forall>p\<in>set post. fst r \<le> fst p"
    using assms(2) unfolding s by (simp add: sorted_append)
  show "\<forall>p\<in>set (b # xs). fst p < fst (first_min b xs)
           \<longrightarrow> float_lt (snd (first_min b xs)) (snd p)"
    unfolding r_def [symmetric] s
    using pre later by auto
qed

lemma mean_int_not_nan: "xs \<noteq> [] \<Longrightarrow> mean_int xs \<noteq> NaN"
  by (simp add: mean_int_def float_div_pos_not_nan fl_not_nan)

lemma group_rows_nonempty:
  assumes "y \<in> set keys" "length keys = length col"
  shows "group_rows y keys col \<noteq> []"
proof -
  from assms(1) obtain i where i: "i < length keys" "keys ! i = y"
    by (auto simp: in_set_conv_nth)
  with assms(2) have "(y, col ! i) \<in> set (zip keys col)"
    by (auto simp: set_zip)
  then have "filter (\<lambda>(k, x). k = y) (zip keys col) \<noteq> []"
    by (auto simp: filter_empty_conv)
  then show ?thesis by (simp add: group_rows_def)
qed

lemma groupby_mean_labels: "map fst (groupby_mean keys col) = sort (remdups keys)"
  by (simp add: groupby_mean_def comp_def)

lemma groupby_mean_entry:
  "p \<in> set (groupby_mean keys col)
     \<Longrightarrow> fst p \<in> set keys \<and> snd p = mean_int (group_rows (fst p) keys col)"
  by (auto simp: groupby_mean_def)

lemma groupby_mean_no_nan:
  assumes "length keys = length col"
  shows "\<forall>p\<in>set (groupby_mean keys col). snd p \<noteq> NaN"
proof
  fix p assume "p \<in> set (groupby_mean keys col)"
  from groupby_mean_entry [OF this]
  have k: "fst p \<in> set keys" and m: "snd p = mean_int (group_rows (fst p) keys col)"
    by simp_all
  from k assms have "group_rows (fst p) keys col \<noteq> []" by (rule group_rows_nonempty)
  then show "snd p \<noteq> NaN" unfolding m by (rule mean_int_not_nan)
qed

lemma groupby_mean_nonempty: "keys \<noteq> [] \<Longrightarrow> groupby_mean keys col \<noteq> []"
proof -
  assume "keys \<noteq> []"
  then have r: "remdups keys \<noteq> []" by simp
  have "sort (remdups keys) \<noteq> []"
  proof
    assume "sort (remdups keys) = []"
    then have "length (sort (remdups keys)) = 0" by simp
    with r show False by simp
  qed
  then show ?thesis by (simp add: groupby_mean_def)
qed

text \<open>The lowest-rating year of a table with at least one row.\<close>

lemma lowest_year:
  assumes "OverallRating df \<noteq> []" "length (YearOfStudy df) = length (OverallRating df)"
  shows "\<exists>y m. idxmin (year_ratings df) = Inr y \<and> series_min (year_ratings df) = m
           \<and> (y, m) \<in> set (year_ratings df)
           \<and> y \<in> set (YearOfStudy df)
           \<and> m = mean_int (group_rows y (YearOfStudy df) (OverallRating df))
           \<and> (\<forall>p\<in>set (year_ratings df).
                 \<not> float_lt (snd p) m \<and> (fst p < y \<longrightarrow> float_lt m (snd p)))"
proof -
  define series where "series = year_ratings df"
  have nn: "\<forall>p\<in>set series. snd p \<noteq> NaN"
    unfolding series_def year_ratings_def using assms(2) by (rule groupby_mean_no_nan)
  have "YearOfStudy df \<noteq> []" using assms by auto
  then have "series \<noteq> []"
    unfolding series_def year_ratings_def by (rule groupby_mean_nonempty)
  then obtain b xs where bx: "series = b # xs" by (cases series) auto
  have keep: "filter (\<lambda>(k, v). \<not> isnull v) series = series"
    using nn by (auto simp: isnull_def filter_id_conv)
  have srt: "sorted (map fst (b # xs))"
    unfolding bx [symmetric] series_def year_ratings_def groupby_mean_labels by simp
  have nn': "\<forall>p\<in>set (b # xs). snd p \<noteq> NaN" using nn bx by simp
  define r where "r = first_min b xs"
  note least = first_min_least [OF nn' srt, folded r_def]
  have i: "idxmin series = Inr (fst r)"
    unfolding idxmin_def keep by (simp add: bx r_def)
  have m: "series_min series = snd r"
    unfolding series_min_def keep by (simp add: bx r_def)
  have mem: "(fst r, snd r) \<in> set series" using least(1) bx by simp
  from groupby_mean_entry [of r "YearOfStudy df" "OverallRating df"] least(1) bx
  have e: "fst r \<in> set (YearOfStudy df)"
    "snd r = mean_int (group_rows (fst r) (YearOfStudy df) (OverallRating df))"
    by (simp_all add: series_def year_ratings_def)
  have "\<forall>p\<in>set series. \<not> float_lt (snd p) (snd r) \<and> (fst p < fst r \<longrightarrow> float_lt (snd r) (snd p))"
    using least(2,3) bx by simp
  with i m mem e show ?thesis
    unfolding series_def by blast
qed

lemma generate_insights_report:
  assumes "idxmin (year_ratings df) = Inr y"
  shows "snd (snd (generate_insights df)) = None"
    and "fst (snd (generate_insights df)) ! 12
           = lowest_year_line y (series_min (year_ratings df))"
  using assms by (simp_all add: generate_insights_def Let_def nth_append)

lemma generate_insights_raises:
  "idxmin (year_ratings df) = Inl e \<Longrightarrow> snd (snd (generate_insights df)) = Some e"
  by (simp add: generate_insights_def Let_def)

lemma fl_numeral: "(numeral n :: int) < 2 ^ 53 \<Longrightarrow> fl (numeral n) = Fin (numeral n)"
  using fl_int [of "numeral n"] by simp

lemma fl_numeral_half:
  "(numeral n :: int) < 2 ^ 53 \<Longrightarrow> fl (numeral n / 2) = Fin (numeral n / 2)"
  using fl_half [of "numeral n"] by simp

lemma year_ratings_example:
  "year_ratings year_example = [(1, Fin 3), (2, Fin (9 / 2)), (3, Fin 2), (4, Fin 4)]"
  by (simp add: year_ratings_def groupby_mean_def group_rows_def mean_int_def year_example_def
      fl_numeral fl_numeral_half)

lemma idxmin_example: "idxmin (year_ratings year_example) = Inr 3"
  unfolding year_ratings_example by (simp add: idxmin_def isnull_def)

lemma series_min_example: "series_min (year_ratings year_example) = Fin 2"
  unfolding year_ratings_example by (simp add: series_min_def isnull_def)

lemma idxmin_tie: "idxmin [(1, Fin 2), (2, Fin 2)] = Inr 1"
  by (simp add: idxmin_def isnull_def)

lemma format_two: "format_fixed 2 (Fin 2) = ''2.00''"
  by (simp add: format_fixed_def round_half_even_numeral nat_digits.simps digit_char_def
      pad_zeros_def)

lemma lowest_year_line_example:
  "lowest_year_line 3 (Fin 2)
     = newline @ ''4. Attendee Demographics: Year 3 students gave the lowest average ratings (2.00).''"
  by (simp add: lowest_year_line_def format_two int_str_def nat_digits.simps digit_char_def)

section \<open>Facts about the printed numbers\<close>

lemma digit_cases:
  "d < 10 \<Longrightarrow> d = 0 \<or> d = 1 \<or> d = 2 \<or> d = 3 \<or> d = 4 \<or> d = 5 \<or> d = 6 \<or> d = 7 \<or> d = 8
     \<or> d = (9::nat)"
  by arith

lemma digit_value_digit_char: "d < 10 \<Longrightarrow> digit_value (digit_char d) = Some d"
  using digit_cases [of d] by (auto simp: digit_value_def digit_char_def)

lemma digit_char_plain:
  "d < 10 \<Longrightarrow> digit_char d \<noteq> CHR ''.'' \<and> digit_char d \<noteq> CHR ''-''"
  using digit_cases [of d] by (auto simp: digit_char_def)

lemma read_digits_append:
  "read_digits acc (xs @ ys)
     = (case read_digits acc xs of None \<Rightarrow> None | Some a \<Rightarrow> read_digits a ys)"
  by (induction xs arbitrary: acc) (auto split: option.splits)

lemma nat_digits_nonempty: "nat_digits n \<noteq> []"
  by (subst nat_digits.simps) simp

lemma nat_digits_chars: "c \<in> set (nat_digits n) \<Longrightarrow> \<exists>d<10. c = digit_char d"
proof (induction n rule: nat_digits.induct)
  case (1 n)
  show ?case
  proof (cases "n < 10")
    case True
    with "1.prems" show ?thesis by (subst (asm) nat_digits.simps) auto
  next
    case False
    with "1.prems" have "c \<in> set (nat_digits (n div 10)) \<or> c = digit_char (n mod 10)"
      by (subst (asm) nat_digits.simps) auto
    then show ?thesis
    proof
      assume "c \<in> set (nat_digits (n div 10))"
      with "1.IH" False show ?thesis by blast
    next
      assume "c = digit_char (n mod 10)"
      moreover have "n mod 10 < 10" by simp
      ultimately show ?thesis by blast
    qed
  qed
qed

lemma read_digits_nat_digits: "read_digits 0 (nat_digits n) = Some n"
proof (induction n rule: nat_digits.induct)
  case (1 n)
  show ?case
  proof (cases "n < 10")
    case True
    then show ?thesis
      by (subst nat_digits.simps) (simp add: digit_value_digit_char)
  next
    case False
    have m: "digit_value (digit_char (n mod 10)) = Some (n mod 10)"
      by (rule digit_value_digit_char) simp
    have "nat_digits n = nat_digits (n div 10) @ [digit_char (n mod 10)]"
      using False by (subst nat_digits.simps) simp
    then show ?thesis
      using "1.IH" [OF False] by (simp add: read_digits_append m)
  qed
qed

lemma read_nat_nat_digits: "read_nat (nat_digits n) = Some n"
  by (simp add: read_nat_def nat_digits_nonempty read_digits_nat_digits)

lemma length_nat_digits_small: "n < 100 \<Longrightarrow> length (nat_digits n) \<le> 2"
proof -
  assume n: "n < 100"
  show ?thesis
  proof (cases "n < 10")
    case True
    then show ?thesis by (subst nat_digits.simps) simp
  next
    case False
    from n have "n div 10 < 10" by simp
    then have "nat_digits (n div 10) = [digit_char (n div 10)]"
      by (subst nat_digits.simps) simp
    then show ?thesis using False by (subst nat_digits.simps) simp
  qed
qed

lemma digit_value_zero: "digit_value CHR ''0'' = Some 0"
  by (simp add: digit_value_def)

lemma read_digits_zeros: "read_digits 0 (replicate k CHR ''0'' @ s) = read_digits 0 s"
  by (induction k) (simp_all add: digit_value_zero)

lemma read_nat_pad_zeros: "read_nat (pad_zeros d (nat_digits n)) = Some n"
  by (simp add: read_nat_def pad_zeros_def nat_digits_nonempty read_digits_zeros
      read_digits_nat_digits)

lemma length_pad_zeros: "length s \<le> d \<Longrightarrow> length (pad_zeros d s) = d"
  by (simp add: pad_zeros_def)

lemma read_int_minus:
  "read_int (CHR ''-'' # cs) = map_option (\<lambda>n. - int n) (read_nat cs)"
  by (simp add: read_int_def)

lemma read_int_plain:
  "c \<noteq> CHR ''-'' \<Longrightarrow> read_int (c # cs) = map_option int (read_nat (c # cs))"
  by (simp add: read_int_def)

lemma read_int_int_str_neg: "k < 0 \<Longrightarrow> read_int (int_str k) = Some k"
proof -
  assume k: "k < 0"
  then have e: "int_str k = CHR ''-'' # nat_digits (nat (- k))"
    by (simp add: int_str_def)
  have "read_int (CHR ''-'' # nat_digits (nat (- k))) = Some (- int (nat (- k)))"
    unfolding read_int_minus read_nat_nat_digits by simp
  also have "- int (nat (- k)) = k" using k by simp
  finally show ?thesis unfolding e .
qed

lemma read_int_int_str_nonneg: "\<not> k < 0 \<Longrightarrow> read_int (int_str k) = Some k"
proof -
  assume k: "\<not> k < 0"
  obtain c cs where s: "nat_digits (nat k) = c # cs"
    using nat_digits_nonempty [of "nat k"] by (cases "nat_digits (nat k)") auto
  then have "c \<in> set (nat_digits (nat k))" by simp
  then have "\<exists>d<10. c = digit_char d" by (rule nat_digits_chars)
  then obtain d where d: "d < 10" and cd: "c = digit_char d" by (elim exE conjE)
  have c: "c \<noteq> CHR ''-''"
    unfolding cd using digit_char_plain [OF d] by (rule conjunct2)
  have e: "int_str k = nat_digits (nat k)"
    using k by (simp add: int_str_def)
  have "read_int (c # cs) = map_option int (read_nat (c # cs))"
    using c by (rule read_int_plain)
  then have "read_int (nat_digits (nat k)) = map_option int (read_nat (nat_digits (nat k)))"
    unfolding s .
  also have "\<dots> = Some (int (nat k))"
    unfolding read_nat_nat_digits by simp
  also have "int (nat k) = k" using k by simp
  finally show ?thesis unfolding e .
qed

lemma read_int_int_str: "read_int (int_str k) = Some k"
  using read_int_int_str_neg [of k] read_int_int_str_nonneg [of k] by blast

lemma round_half_even_nonneg: "0 \<le> x \<Longrightarrow> 0 \<le> round_half_even x"
  by (simp add: round_half_even_def Let_def)

lemma round_half_even_close: "\<bar>of_int (round_half_even x) - x\<bar> \<le> 1 / 2"
proof -
  define f where "f = \<lfloor>x\<rfloor>"
  define r where "r = x - of_int f"
  have r0: "0 \<le> r" and r1: "r < 1"
    unfolding r_def f_def by linarith+
  have x: "x = of_int f + r" by (simp add: r_def)
  have "round_half_even x = (if r < 1 / 2 then f else if 1 / 2 < r then f + 1
         else if even f then f else f + 1)"
    by (simp add: round_half_even_def Let_def f_def r_def)
  then consider "round_half_even x = f" "r \<le> 1 / 2"
    | "round_half_even x = f + 1" "1 / 2 \<le> r"
    by (auto split: if_splits)
  then show ?thesis
  proof cases
    case 1
    then show ?thesis using r0 by (simp add: x)
  next
    case 2
    then show ?thesis using r1 by (simp add: x)
  qed
qed

lemma takeWhile_digits_point:
  assumes "\<forall>c\<in>set ds. c \<noteq> CHR ''.''"
  shows "takeWhile (\<lambda>c. c \<noteq> CHR ''.'') (ds @ CHR ''.'' # fs) = ds"
    and "dropWhile (\<lambda>c. c \<noteq> CHR ''.'') (ds @ CHR ''.'' # fs) = CHR ''.'' # fs"
  using assms by (induction ds) simp_all

lemma nat_digits_no_point: "\<forall>c\<in>set (nat_digits n). c \<noteq> CHR ''.''"
proof
  fix c assume "c \<in> set (nat_digits n)"
  then have "\<exists>d<10. c = digit_char d" by (rule nat_digits_chars)
  then obtain d where d: "d < 10" and cd: "c = digit_char d" by (elim exE conjE)
  show "c \<noteq> CHR ''.''"
    unfolding cd using digit_char_plain [OF d] by (rule conjunct1)
qed

lemma nat_digits_head: "\<exists>c cs. nat_digits n = c # cs \<and> c \<noteq> CHR ''-''"
proof -
  obtain c cs where s: "nat_digits n = c # cs"
    using nat_digits_nonempty [of n] by (cases "nat_digits n") auto
  then have "c \<in> set (nat_digits n)" by simp
  then have "\<exists>d<10. c = digit_char d" by (rule nat_digits_chars)
  then obtain d where d: "d < 10" and cd: "c = digit_char d" by (elim exE conjE)
  have "c \<noteq> CHR ''-''"
    unfolding cd using digit_char_plain [OF d] by (rule conjunct2)
  with s show ?thesis by blast
qed

text \<open>Reading a number of the form digits, point, digits.\<close>

lemma read_fixed_plain:
  assumes "ds = c # cs" "c \<noteq> CHR ''-''" "\<forall>x\<in>set ds. x \<noteq> CHR ''.''"
      and "read_nat ds = Some a" "read_nat fs = Some b" "length fs = d"
  shows "read_fixed d (ds @ CHR ''.'' # fs) = Some (of_nat a + of_nat b / 10 ^ d)"
proof -
  have neg: "(case ds @ CHR ''.'' # fs of [] \<Rightarrow> False | x # xs \<Rightarrow> x = CHR ''-'') = False"
    using assms(1,2) by simp
  show ?thesis
    unfolding read_fixed_def Let_def neg if_False
      takeWhile_digits_point [OF assms(3)]
    using assms(4,5,6) by simp
qed

lemma read_fixed_minus:
  assumes "\<forall>x\<in>set ds. x \<noteq> CHR ''.''"
      and "read_nat ds = Some a" "read_nat fs = Some b" "length fs = d"
  shows "read_fixed d (CHR ''-'' # ds @ CHR ''.'' # fs) = Some (- (of_nat a + of_nat b / 10 ^ d))"
proof -
  have neg: "(case CHR ''-'' # ds @ CHR ''.'' # fs of [] \<Rightarrow> False | x # xs \<Rightarrow> x = CHR ''-'')
             = True"
    by simp
  have tl: "tl (CHR ''-'' # ds @ CHR ''.'' # fs) = ds @ CHR ''.'' # fs" by simp
  show ?thesis
    unfolding read_fixed_def Let_def neg if_True tl
      takeWhile_digits_point [OF assms(1)]
    using assms(2,3,4) by simp
qed

text \<open>
  What \<open>.2f\<close> prints reads back as the magnitude rounded to hundredths, ties to even,
  with the sign of the number.
\<close>

lemma read_fixed_format_fixed:
  "read_fixed 2 (format_fixed 2 (Fin q))
     = Some ((if q < 0 then - 1 else 1) * (of_int (round_half_even (\<bar>q\<bar> * 100)) / 100))"
proof -
  define s where "s = nat (round_half_even (\<bar>q\<bar> * 100))"
  define ds where "ds = nat_digits (s div 100)"
  define fs where "fs = pad_zeros 2 (nat_digits (s mod 100))"
  have s0: "0 \<le> round_half_even (\<bar>q\<bar> * 100)"
    by (rule round_half_even_nonneg) simp
  then have sv: "(of_nat s :: rat) = of_int (round_half_even (\<bar>q\<bar> * 100))"
    unfolding s_def by (metis of_int_of_nat_eq of_nat_nat)
  have a: "read_nat ds = Some (s div 100)"
    unfolding ds_def by (rule read_nat_nat_digits)
  have b: "read_nat fs = Some (s mod 100)"
    unfolding fs_def by (rule read_nat_pad_zeros)
  have "length (nat_digits (s mod 100)) \<le> 2"
    by (rule length_nat_digits_small) simp
  then have l: "length fs = 2"
    unfolding fs_def by (rule length_pad_zeros)
  have np: "\<forall>x\<in>set ds. x \<noteq> CHR ''.''"
    unfolding ds_def by (rule nat_digits_no_point)
  obtain c cs where h: "ds = c # cs" "c \<noteq> CHR ''-''"
    unfolding ds_def using nat_digits_head [of "s div 100"] by blast
  have "s = (s div 100) * 100 + s mod 100" by simp
  then have "(of_nat s :: rat) = of_nat (s div 100) * 100 + of_nat (s mod 100)"
    by (metis of_nat_add of_nat_mult of_nat_numeral)
  then have val: "of_nat (s div 100) + of_nat (s mod 100) / 10 ^ 2 = (of_nat s :: rat) / 100"
    by (simp add: field_simps)
  have fmt: "format_fixed 2 (Fin q) = (if q < 0 then ''-'' else []) @ ds @ CHR ''.'' # fs"
    by (simp add: format_fixed_def Let_def s_def ds_def fs_def)
  show ?thesis
  proof (cases "q < 0")
    case True
    have "read_fixed 2 (CHR ''-'' # ds @ CHR ''.'' # fs)
            = Some (- (of_nat (s div 100) + of_nat (s mod 100) / 10 ^ 2))"
      using np a b l by (rule read_fixed_minus)
    then show ?thesis
      unfolding fmt val sv using True by simp
  next
    case False
    have "read_fixed 2 (ds @ CHR ''.'' # fs)
            = Some (of_nat (s div 100) + of_nat (s mod 100) / 10 ^ 2)"
      using h np a b l by (rule read_fixed_plain)
    then show ?thesis
      unfolding fmt val sv using False by simp
  qed
qed

lemma format_fixed_close:
  "\<bar>of_int (round_half_even (\<bar>q\<bar> * 100)) / 100 - \<bar>q\<bar>\<bar> \<le> 1 / 200"
proof -
  have "\<bar>of_int (round_half_even (\<bar>q\<bar> * 100)) - \<bar>q\<bar> * 100\<bar> \<le> 1 / 2"
    by (rule round_half_even_close)
  then show ?thesis by (simp add: abs_le_iff field_simps)
qed

section \<open>Means of small integers\<close>

text \<open>A number below \<open>2^1023\<close> in magnitude rounds to a finite double.\<close>

lemma fl_finite:
  assumes "\<bar>q\<bar> < 2 ^ 1023"
  shows "\<exists>r. fl q = Fin r"
proof (cases "q = 0")
  case True
  then show ?thesis by (simp add: fl_def)
next
  case False
  define a where "a = \<bar>q\<bar>"
  define e where "e = max (rat_exponent a) (- 1022)"
  define u :: rat where "u = 2 powi (e - 52)"
  define m where "m = round_half_even (a / u)"
  have a0: "0 < a" using False by (simp add: a_def)
  have u: "0 < u" by (simp add: u_def)
  from rat_exponent_bounds [OF a0]
  have lo: "2 powi (rat_exponent a) \<le> a" and hi: "a < 2 powi (rat_exponent a + 1)"
    by simp_all
  have "rat_exponent a < 1023"
  proof (rule ccontr)
    assume "\<not> rat_exponent a < 1023"
    then have "(2::rat) powi 1023 \<le> 2 powi (rat_exponent a)"
      by (intro power_int_increasing) simp_all
    moreover have "(2::rat) powi 1023 = 2 ^ 1023" by (simp add: power_int_def)
    ultimately have "(2::rat) ^ 1023 \<le> a" using lo by simp
    with assms show False by (simp add: a_def)
  qed
  then have e1: "e + 1 \<le> 1023" by (simp add: e_def)
  have "(2::rat) powi (rat_exponent a + 1) \<le> 2 powi (e + 1)"
    by (intro power_int_increasing) (simp_all add: e_def)
  with hi have hi': "a < 2 powi (e + 1)" by simp
  have up: "2 powi (e + 1) = u * 2 ^ 53"
  proof -
    have p: "(2::rat) powi ((e - 52) + 53) = 2 powi (e - 52) * 2 powi 53"
      by (rule power_int_add) simp
    have "(e - 52) + 53 = e + 1" by simp
    with p have "(2::rat) powi (e + 1) = 2 powi (e - 52) * 2 powi 53"
      by simp
    then show ?thesis by (simp add: u_def power_int_def)
  qed
  with hi' u have "a / u < 2 ^ 53"
    by (simp add: pos_divide_less_eq mult.commute)
  then have "a / u \<le> of_int (2 ^ 53)" by simp
  then have "m \<le> 2 ^ 53" unfolding m_def by (rule round_half_even_le)
  then have "of_int m \<le> (2::rat) ^ 53"
    by (metis of_int_le_iff of_int_numeral of_int_power)
  then have "of_int m * u \<le> 2 ^ 53 * u"
    using u by (simp add: mult_right_mono)
  also have "\<dots> = 2 powi (e + 1)" by (simp add: up)
  also have "\<dots> \<le> 2 powi 1023"
    using e1 by (intro power_int_increasing) simp_all
  also have "\<dots> < double_overflow"
  proof -
    have "(2::rat) powi 1023 = 2 ^ 1023" by (simp add: power_int_def)
    also have "\<dots> < 2 ^ 1024" by (rule power_strict_increasing) simp_all
    finally show ?thesis by (simp add: double_overflow_def)
  qed
  finally have ok: "\<not> double_overflow \<le> of_int m * u" by simp
  have "fl q = Fin (if 0 < q then of_int m * u else - (of_int m * u))"
    unfolding fl_def Let_def a_def [symmetric] e_def [symmetric] u_def [symmetric]
      m_def [symmetric]
    using False ok by simp
  then show ?thesis by blast
qed

lemma fl_of_int: "\<bar>n\<bar> < 2 ^ 53 \<Longrightarrow> fl (of_int n) = Fin (of_int n)"
proof -
  assume n: "\<bar>n\<bar> < 2 ^ 53"
  consider "n = 0" | "0 < n" | "n < 0" by linarith
  then show ?thesis
  proof cases
    case 1
    then show ?thesis by (simp add: fl_def)
  next
    case 2
    with n show ?thesis by (intro fl_int) simp_all
  next
    case 3
    with n have "fl (of_int (- n)) = Fin (of_int (- n))" by (intro fl_int) simp_all
    then have "fl (- of_int n) = Fin (- of_int n)" by simp
    then have "float_neg (fl (of_int n)) = Fin (- of_int n)" by (simp only: fl_neg)
    then show ?thesis by (cases "fl (of_int n)") simp_all
  qed
qed

lemma abs_sum_list_int: "\<bar>sum_list xs\<bar> \<le> sum_list (map abs (xs :: int list))"
  by (induction xs) auto

lemma sum_abs_filter:
  "sum_list (map (\<lambda>p. \<bar>snd p\<bar>) (filter P zs)) \<le> sum_list (map (\<lambda>p. \<bar>snd p :: int\<bar>) zs)"
  by (induction zs) auto

lemma sum_abs_zip:
  "sum_list (map (\<lambda>p. \<bar>snd p :: int\<bar>) (zip ks xs)) \<le> sum_list (map abs xs)"
proof (induction xs arbitrary: ks)
  case Nil
  show ?case by simp
next
  case (Cons x xs)
  show ?case
  proof (cases ks)
    case Nil
    have "0 \<le> sum_list (map abs xs)" by (rule sum_list_nonneg) auto
    with Nil show ?thesis by simp
  next
    case (Cons k ks')
    with Cons.IH [of ks'] show ?thesis by simp
  qed
qed

lemma group_rows_sum_bound:
  "\<bar>sum_list (group_rows y keys col)\<bar> \<le> sum_list (map abs (col :: int list))"
proof -
  let ?zs = "filter (\<lambda>(k, x). k = y) (zip keys col)"
  have "\<bar>sum_list (map snd ?zs)\<bar> \<le> sum_list (map abs (map snd ?zs))"
    by (rule abs_sum_list_int)
  also have "\<dots> = sum_list (map (\<lambda>p. \<bar>snd p\<bar>) ?zs)"
    by (simp add: comp_def)
  also have "\<dots> \<le> sum_list (map (\<lambda>p. \<bar>snd p\<bar>) (zip keys col))"
    by (rule sum_abs_filter)
  also have "\<dots> \<le> sum_list (map abs col)"
    by (rule sum_abs_zip)
  finally show ?thesis by (simp add: group_rows_def)
qed

lemma ratings_of_year_group_rows:
  "ratings_of_year df y = group_rows y (YearOfStudy df) (OverallRating df)"
proof -
  have "concat (map (\<lambda>(k, r). if k = y then [r] else []) zs)
          = map snd (filter (\<lambda>(k, x). k = y) zs)" for zs :: "(int \<times> int) list"
    by (induction zs) auto
  then show ?thesis
    by (simp add: ratings_of_year_def group_rows_def)
qed

text \<open>
  Where the absolute values of the ratings add up to less than \<open>2^53\<close>, the mean of a
  group is the exact mean rounded to a double, and it is finite.
\<close>

lemma mean_int_year_mean:
  assumes "sum_list (map abs (OverallRating df)) < 2 ^ 53" "ratings_of_year df y \<noteq> []"
  shows "mean_int (group_rows y (YearOfStudy df) (OverallRating df)) = year_mean df y"
proof -
  define g where "g = group_rows y (YearOfStudy df) (OverallRating df)"
  have g: "ratings_of_year df y = g"
    unfolding g_def by (rule ratings_of_year_group_rows)
  have "\<bar>sum_list g\<bar> \<le> sum_list (map abs (OverallRating df))"
    unfolding g_def by (rule group_rows_sum_bound)
  with assms(1) have "\<bar>sum_list g\<bar> < 2 ^ 53" by simp
  then have "fl (of_int (sum_list g)) = Fin (of_int (sum_list g))" by (rule fl_of_int)
  moreover have "g \<noteq> []" using assms(2) g by simp
  ultimately show ?thesis
    unfolding g_def [symmetric] year_mean_def g by (simp add: mean_int_def)
qed

lemma year_mean_finite:
  assumes "sum_list (map abs (OverallRating df)) < 2 ^ 53" "ratings_of_year df y \<noteq> []"
  shows "\<exists>q. year_mean df y = Fin q"
proof -
  define g where "g = ratings_of_year df y"
  define n where "n = length g"
  have n: "1 \<le> n" using assms(2) by (cases g) (simp_all add: n_def g_def)
  have "\<bar>sum_list g\<bar> \<le> sum_list (map abs (OverallRating df))"
    unfolding g_def ratings_of_year_group_rows by (rule group_rows_sum_bound)
  with assms(1) have s: "\<bar>sum_list g\<bar> < 2 ^ 53" by simp
  have "\<bar>(of_int (sum_list g) :: rat) / of_nat n\<bar> = \<bar>of_int (sum_list g)\<bar> / of_nat n"
    by simp
  also have "\<dots> \<le> \<bar>of_int (sum_list g)\<bar> / 1"
    using n by (intro divide_left_mono) simp_all
  also have "\<dots> = of_int \<bar>sum_list g\<bar>" by simp
  also have "\<dots> < of_int (2 ^ 53)" using s by (simp only: of_int_less_iff)
  also have "\<dots> = (2::rat) ^ 53" by simp
  also have "\<dots> < 2 ^ 1023" by (rule power_strict_increasing) simp_all
  finally have "\<bar>(of_int (sum_list g) :: rat) / of_nat n\<bar> < 2 ^ 1023" .
  then show ?thesis
    unfolding year_mean_def g_def [symmetric] n_def [symmetric] by (rule fl_finite)
qed

lemma groupby_mean_member:
  "k \<in> set keys \<Longrightarrow> (k, mean_int (group_rows k keys col)) \<in> set (groupby_mean keys col)"
  by (auto simp: groupby_mean_def)

lemma ratings_of_year_nonempty:
  "y \<in> set (YearOfStudy df) \<Longrightarrow> length (YearOfStudy df) = length (OverallRating df)
     \<Longrightarrow> ratings_of_year df y \<noteq> []"
  unfolding ratings_of_year_group_rows by (rule group_rows_nonempty)

lemma generate_insights_lines:
  assumes "idxmin (year_ratings df) = Inr y"
  shows "length (fst (snd (generate_insights df))) = 16"
    and "fst (snd (generate_insights df)) ! 12
           = CHR 0x0A # ''4. Attendee Demographics: Year '' @ int_str y
               @ '' students gave the lowest average ratings (''
               @ format_fixed 2 (series_min (year_ratings df)) @ '').''"
    and "fst (snd (generate_insights df)) ! 13
           = ''   - Insight: This suggests the event content may be less relevant or engaging for students in year ''
               @ int_str y @ ''.''"
  using assms
  by (simp_all add: generate_insights_def Let_def nth_append lowest_year_line_def newline_def)

text \<open>The lowest-rating year of a table with at least one row and small ratings.\<close>

lemma lowest_year_report:
  assumes "OverallRating df \<noteq> []" "length (YearOfStudy df) = length (OverallRating df)"
      and "sum_list (map abs (OverallRating df)) < 2 ^ 53"
  shows "\<exists>y q. y \<in> set (YearOfStudy df) \<and> year_mean df y = Fin q
           \<and> (\<forall>k\<in>set (YearOfStudy df).
                 \<not> float_lt (year_mean df k) (Fin q)
                 \<and> (k < y \<longrightarrow> float_lt (Fin q) (year_mean df k)))
           \<and> snd (snd (generate_insights df)) = None
           \<and> length (fst (snd (generate_insights df))) = 16
           \<and> fst (snd (generate_insights df)) ! 12
               = CHR 0x0A # ''4. Attendee Demographics: Year '' @ int_str y
                   @ '' students gave the lowest average ratings (''
                   @ format_fixed 2 (Fin q) @ '').''
           \<and> fst (snd (generate_insights df)) ! 13
               = ''   - Insight: This suggests the event content may be less relevant or engaging for students in year ''
                   @ int_str y @ ''.''"
proof -
  from lowest_year [OF assms(1,2)] obtain y m
    where l: "idxmin (year_ratings df) = Inr y" "series_min (year_ratings df) = m"
      "y \<in> set (YearOfStudy df)"
      "m = mean_int (group_rows y (YearOfStudy df) (OverallRating df))"
      "\<forall>p\<in>set (year_ratings df).
          \<not> float_lt (snd p) m \<and> (fst p < y \<longrightarrow> float_lt m (snd p))"
    by blast
  have ne: "ratings_of_year df k \<noteq> []" if "k \<in> set (YearOfStudy df)" for k
    using that assms(2) by (rule ratings_of_year_nonempty)
  have mean: "mean_int (group_rows k (YearOfStudy df) (OverallRating df)) = year_mean df k"
    if "k \<in> set (YearOfStudy df)" for k
    using assms(3) ne [OF that] by (rule mean_int_year_mean)
  have my: "m = year_mean df y" using l(4) mean [OF l(3)] by simp
  from year_mean_finite [OF assms(3) ne [OF l(3)]] obtain q where q: "year_mean df y = Fin q"
    by blast
  have mq: "m = Fin q" using my q by simp
  have least: "\<not> float_lt (year_mean df k) (Fin q)
                \<and> (k < y \<longrightarrow> float_lt (Fin q) (year_mean df k))"
    if k: "k \<in> set (YearOfStudy df)" for k
  proof -
    have "(k, mean_int (group_rows k (YearOfStudy df) (OverallRating df)))
            \<in> set (year_ratings df)"
      unfolding year_ratings_def using k by (rule groupby_mean_member)
    then have "(k, year_mean df k) \<in> set (year_ratings df)"
      by (simp only: mean [OF k])
    with l(5) have "\<not> float_lt (snd (k, year_mean df k)) m
        \<and> (fst (k, year_mean df k) < y \<longrightarrow> float_lt m (snd (k, year_mean df k)))"
      by blast
    then show ?thesis by (simp add: mq)
  qed
  have none: "snd (snd (generate_insights df)) = None"
    using l(1) by (rule generate_insights_report(1))
  from generate_insights_lines [OF l(1)] l(2) mq
  have lines: "length (fst (snd (generate_insights df))) = 16"
    "fst (snd (generate_insights df)) ! 12
       = CHR 0x0A # ''4. Attendee Demographics: Year '' @ int_str y
           @ '' students gave the lowest average ratings (''
           @ format_fixed 2 (Fin q) @ '').''"
    "fst (snd (generate_insights df)) ! 13
       = ''   - Insight: This suggests the event content may be less relevant or engaging for students in year ''
           @ int_str y @ ''.''"
    by simp_all
  show ?thesis
    using l(3) q least none lines by blast
qed

lemma fl_10_3: "fl (10 / 3) = Fin (7505999378950827 / 2251799813685248)"
  by (subst fl_normal [where e = 1]) (simp_all add: fl_eval)

lemma year_ratings_thirds:
  "year_ratings thirds_example
     = [(7, Fin (9 / 2)), (12, Fin (7505999378950827 / 2251799813685248))]"
  by (simp add: year_ratings_def groupby_mean_def group_rows_def mean_int_def
      thirds_example_def year_example_def fl_numeral fl_numeral_half fl_10_3)

lemma year_ratings_tie: "year_ratings tie_example = [(1, Fin 3), (2, Fin 3), (3, Fin 5)]"
  by (simp add: year_ratings_def groupby_mean_def group_rows_def mean_int_def
      tie_example_def year_example_def fl_numeral fl_numeral_half)

lemma format_examples:
  "format_fixed 2 (Fin 3) = ''3.00''"
  "format_fixed 2 (Fin (7505999378950827 / 2251799813685248)) = ''3.33''"
  by (simp_all add: format_fixed_def round_half_even_numeral round_half_even_numeral_divide
      Let_def nat_digits.simps digit_char_def pad_zeros_def)

lemma int_str_examples: "int_str 1 = ''1''" "int_str 3 = ''3''" "int_str 12 = ''12''"
  by (simp_all add: int_str_def nat_digits.simps digit_char_def)

lemma report_year_example:
  "fst (snd (generate_insights year_example)) ! 12
     = CHR 0x0A # ''4. Attendee Demographics: Year 3 students gave the lowest average ratings (2.00).''"
proof -
  have i: "idxmin (year_ratings year_example) = Inr 3" by (rule idxmin_example)
  show ?thesis
    unfolding generate_insights_lines(2) [OF i] series_min_example format_two int_str_examples
    by simp
qed

lemma report_thirds_example:
  "fst (snd (generate_insights thirds_example)) ! 12
     = CHR 0x0A # ''4. Attendee Demographics: Year 12 students gave the lowest average ratings (3.33).''"
proof -
  have i: "idxmin (year_ratings thirds_example) = Inr 12"
    unfolding year_ratings_thirds by (simp add: idxmin_def isnull_def)
  have m: "series_min (year_ratings thirds_example)
             = Fin (7505999378950827 / 2251799813685248)"
    unfolding year_ratings_thirds by (simp add: series_min_def isnull_def)
  show ?thesis
    unfolding generate_insights_lines(2) [OF i] m format_examples int_str_examples
    by simp
qed

lemma report_tie_example:
  "fst (snd (generate_insights tie_example)) ! 12
     = CHR 0x0A # ''4. Attendee Demographics: Year 1 students gave the lowest average ratings (3.00).''"
proof -
  have i: "idxmin (year_ratings tie_example) = Inr 1"
    unfolding year_ratings_tie by (simp add: idxmin_def isnull_def)
  have m: "series_min (year_ratings tie_example) = Fin 3"
    unfolding year_ratings_tie by (simp add: series_min_def isnull_def)
  show ?thesis
    unfolding generate_insights_lines(2) [OF i] m format_examples int_str_examples
    by simp
qed

lemma report_no_responses:
  "snd (snd (generate_insights no_responses)) = Some ValueError"
  "length (fst (snd (generate_insights no_responses))) = 12"
proof -
  have i: "idxmin (year_ratings no_responses) = Inl ValueError"
    by (simp add: year_ratings_def groupby_mean_def no_responses_def idxmin_def)
  show "snd (snd (generate_insights no_responses)) = Some ValueError"
    using i by (rule generate_insights_raises)
  show "length (fst (snd (generate_insights no_responses))) = 12"
    using i by (simp add: generate_insights_def Let_def)
qed

lemma year_mean_example:
  "year_mean year_example 1 = Fin 3" "year_mean year_example 2 = Fin (9 / 2)"
  "year_mean year_example 3 = Fin 2" "year_mean year_example 4 = Fin 4"
  by (simp_all add: year_mean_def ratings_of_year_def year_example_def fl_numeral
      fl_numeral_half)

section \<open>The reporter names the year with the lowest mean rating\<close>

text \<open>
  Claim C8, as stated, fails on the scored table with no row. There is no year group,
  \<open>idxmin\<close> raises ValueError, and the call ends after the twelve lines of the first
  three items: the fourth item, with the year and its mean, is never printed.
\<close>

theorem generate_insights_empty_table_counterexample:
  "OverallRating no_responses = [] \<and> YearOfStudy no_responses = []
   \<and> snd (snd (generate_insights no_responses)) = Some ValueError
   \<and> length (fst (snd (generate_insights no_responses))) = 12"
  using report_no_responses by (simp add: no_responses_def)

text \<open>
  Claim C8, amended. For every scored table with at least one row, and with overall
  ratings whose absolute values add up to less than \<open>2^53\<close> (as in every table of ratings
  from 1 to 5), the insight reporter finds the year-of-study group whose mean overall
  rating is minimal: the year it names is a year of the table, no year has a smaller
  mean, and every year with a smaller label has a strictly larger mean, so that of
  several years with the minimal mean it names the one with the least label. The mean
  of a year is the sum of its overall ratings over their number, as a double. The
  reporter raises nothing and prints sixteen lines; the thirteenth is the fourth item
  with that year and that mean to two decimals, which reads back as the mean rounded to
  hundredths and differs from it by at most half a hundredth, and the fourteenth names
  the year again. For group means 3.0, 4.5, 2.0 and 4.0 in years 1 to 4 it reports
  year 3 with 2.00; for means 4.5 in year 7 and 10/3 in year 12 it reports year 12 with
  3.33; and for means 3.0, 3.0 and 5.0 in years 1 to 3 it reports year 1 with 3.00.
\<close>

theorem generate_insights_lowest_year:
  "(OverallRating df \<noteq> [] \<and> length (YearOfStudy df) = length (OverallRating df)
      \<and> sum_list (map abs (OverallRating df)) < 2 ^ 53 \<longrightarrow>
      (\<exists>y q. y \<in> set (YearOfStudy df) \<and> year_mean df y = Fin q
         \<and> (\<forall>k\<in>set (YearOfStudy df).
               \<not> float_lt (year_mean df k) (Fin q)
               \<and> (k < y \<longrightarrow> float_lt (Fin q) (year_mean df k)))
         \<and> snd (snd (generate_insights df)) = None
         \<and> length (fst (snd (generate_insights df))) = 16
         \<and> fst (snd (generate_insights df)) ! 12
             = CHR 0x0A # ''4. Attendee Demographics: Year '' @ int_str y
                 @ '' students gave the lowest average ratings (''
                 @ format_fixed 2 (Fin q) @ '').''
         \<and> fst (snd (generate_insights df)) ! 13
             = ''   - Insight: This suggests the event content may be less relevant or engaging for students in year ''
                 @ int_str y @ ''.''
         \<and> read_int (int_str y) = Some y
         \<and> read_fixed 2 (format_fixed 2 (Fin q))
             = Some ((if q < 0 then - 1 else 1)
                     * (of_int (round_half_even (\<bar>q\<bar> * 100)) / 100))
         \<and> \<bar>of_int (round_half_even (\<bar>q\<bar> * 100)) / 100 - \<bar>q\<bar>\<bar> \<le> 1 / 200))
   \<and> fst (snd (generate_insights year_example)) ! 12
       = CHR 0x0A # ''4. Attendee Demographics: Year 3 students gave the lowest average ratings (2.00).''
   \<and> fst (snd (generate_insights thirds_example)) ! 12
       = CHR 0x0A # ''4. Attendee Demographics: Year 12 students gave the lowest average ratings (3.33).''
   \<and> fst (snd (generate_insights tie_example)) ! 12
       = CHR 0x0A # ''4. Attendee Demographics: Year 1 students gave the lowest average ratings (3.00).''"
proof -
  have general: "\<exists>y q. y \<in> set (YearOfStudy df) \<and> year_mean df y = Fin q
         \<and> (\<forall>k\<in>set (YearOfStudy df).
               \<not> float_lt (year_mean df k) (Fin q)
               \<and> (k < y \<longrightarrow> float_lt (Fin q) (year_mean df k)))
         \<and> snd (snd (generate_insights df)) = None
         \<and> length (fst (snd (generate_insights df))) = 16
         \<and> fst (snd (generate_insights df)) ! 12
             = CHR 0x0A # ''4. Attendee Demographics: Year '' @ int_str y
                 @ '' students gave the lowest average ratings (''
                 @ format_fixed 2 (Fin q) @ '').''
         \<and> fst (snd (generate_insights df)) ! 13
             = ''   - Insight: This suggests the event content may be less relevant or engaging for students in year ''
                 @ int_str y @ ''.''
         \<and> read_int (int_str y) = Some y
         \<and> read_fixed 2 (format_fixed 2 (Fin q))
             = Some ((if q < 0 then - 1 else 1)
                     * (of_int (round_half_even (\<bar>q\<bar> * 100)) / 100))
         \<and> \<bar>of_int (round_half_even (\<bar>q\<bar> * 100)) / 100 - \<bar>q\<bar>\<bar> \<le> 1 / 200"
    if a: "OverallRating df \<noteq> []" "length (YearOfStudy df) = length (OverallRating df)"
      "sum_list (map abs (OverallRating df)) < 2 ^ 53"
  proof -
    from lowest_year_report [OF a] obtain y q
      where r: "y \<in> set (YearOfStudy df)" "year_mean df y = Fin q"
        "\<forall>k\<in>set (YearOfStudy df).
            \<not> float_lt (year_mean df k) (Fin q)
            \<and> (k < y \<longrightarrow> float_lt (Fin q) (year_mean df k))"
        "snd (snd (generate_insights df)) = None"
        "length (fst (snd (generate_insights df))) = 16"
        "fst (snd (generate_insights df)) ! 12
           = CHR 0x0A # ''4. Attendee Demographics: Year '' @ int_str y
               @ '' students gave the lowest average ratings (''
               @ format_fixed 2 (Fin q) @ '').''"
        "fst (snd (generate_insights df)) ! 13
           = ''   - Insight: This suggests the event content may be less relevant or engaging for students in year ''
               @ int_str y @ ''.''"
      by blast
    show ?thesis
      using r read_int_int_str [of y] read_fixed_format_fixed [of q] format_fixed_close [of q]
      by blast
  qed
  show ?thesis
    using general report_year_example report_thirds_example report_tie_example by blast
qed

theorem generate_insights_lowest_year_witness:
  "OverallRating year_example \<noteq> []
   \<and> length (YearOfStudy year_example) = length (OverallRating year_example)
   \<and> sum_list (map abs (OverallRating year_example)) < 2 ^ 53
   \<and> year_mean year_example 3 = Fin 2
   \<and> snd (snd (generate_insights year_example)) = None
   \<and> length (fst (snd (generate_insights year_example))) = 16
   \<and> fst (snd (generate_insights year_example)) ! 12
       = CHR 0x0A # ''4. Attendee Demographics: Year '' @ int_str 3
           @ '' students gave the lowest average ratings ('' @ format_fixed 2 (Fin 2) @ '').''
   \<and> read_int (int_str 3) = Some 3
   \<and> read_fixed 2 (format_fixed 2 (Fin 2)) = Some 2"
proof -
  have a: "OverallRating year_example \<noteq> []"
    "length (YearOfStudy year_example) = length (OverallRating year_example)"
    "sum_list (map abs (OverallRating year_example)) < 2 ^ 53"
    by (simp_all add: year_example_def)
  have years: "set (YearOfStudy year_example) = {1, 2, 3, 4}"
    by (auto simp: year_example_def)
  from generate_insights_lowest_year [of year_example] a obtain y q
    where r: "y \<in> set (YearOfStudy year_example)" "year_mean year_example y = Fin q"
      "\<forall>k\<in>set (YearOfStudy year_example). \<not> float_lt (year_mean year_example k) (Fin q)"
      "snd (snd (generate_insights year_example)) = None"
      "length (fst (snd (generate_insights year_example))) = 16"
      "fst (snd (generate_insights year_example)) ! 12
         = CHR 0x0A # ''4. Attendee Demographics: Year '' @ int_str y
             @ '' students gave the lowest average ratings (''
             @ format_fixed 2 (Fin q) @ '').''"
      "read_int (int_str y) = Some y"
      "read_fixed 2 (format_fixed 2 (Fin q))
         = Some ((if q < 0 then - 1 else 1)
                 * (of_int (round_half_even (\<bar>q\<bar> * 100)) / 100))"
    by blast
  have "3 \<in> set (YearOfStudy year_example)" by (simp add: years)
  with r(3) have low: "\<not> float_lt (year_mean year_example 3) (Fin q)" by blast
  from r(1) have "y = 1 \<or> y = 2 \<or> y = 3 \<or> y = 4" by (simp add: years)
  then have y: "y = 3"
    using r(2) low by (auto simp: year_mean_example)
  with r(2) have q: "q = 2" by (simp add: year_mean_example)
  have v: "(if (2::rat) < 0 then - 1 else 1) * (of_int (round_half_even (\<bar>2\<bar> * 100)) / 100)
             = (2::rat)"
    by (simp add: round_half_even_numeral)
  have f: "read_fixed 2 (format_fixed 2 (Fin 2)) = Some 2"
    using r(8) unfolding q v .
  show ?thesis
    using a r(4,5) r(6,7) [unfolded y q] year_mean_example(3) f by blast
qed

end
